theory Spec2Isabelle
  imports Main "HOL-Library.Word"
begin

section \<open>JavaScript strings\<close>

text \<open>
  A JavaScript string is a sequence of UTF-16 code units. String literals of the source
  are ASCII; \<open>js\<close> turns an Isabelle literal into the code units it denotes.
\<close>

type_synonym codeunit = "16 word"
type_synonym jsstring = "codeunit list"

definition cu :: "char \<Rightarrow> codeunit" where
  "cu c = of_nat (of_char c)"

definition js :: "string \<Rightarrow> jsstring" where
  "js s = map cu s"

text \<open>
  \<open>String.prototype.trim\<close> removes WhiteSpace and LineTerminator code points from both
  ends: TAB, LF, VT, FF, CR, SP, NBSP, the Unicode space separators, LS, PS and the BOM.
\<close>

definition isWhiteSpace :: "codeunit \<Rightarrow> bool" where
  "isWhiteSpace c = (c \<in> set [0x09, 0x0A, 0x0B, 0x0C, 0x0D, 0x20, 0xA0, 0x1680,
      0x2000, 0x2001, 0x2002, 0x2003, 0x2004, 0x2005, 0x2006, 0x2007, 0x2008, 0x2009,
      0x200A, 0x2028, 0x2029, 0x202F, 0x205F, 0x3000, 0xFEFF])"

definition trim :: "jsstring \<Rightarrow> jsstring" where
  "trim s = rev (dropWhile isWhiteSpace (rev (dropWhile isWhiteSpace s)))"

text \<open>\<open>s.startsWith(p)\<close>, \<open>s.includes(sub)\<close> and \<open>s.replace(pat, rep)\<close> for a string
  pattern (the first occurrence only; the replacement text of the source is the empty
  string, which has no substitution patterns).\<close>

definition startsWith :: "'a list \<Rightarrow> 'a list \<Rightarrow> bool" where
  "startsWith s p = (take (length p) s = p)"

fun includesText :: "'a list \<Rightarrow> 'a list \<Rightarrow> bool" where
  "includesText [] sub = (sub = [])"
| "includesText (c # cs) sub = (startsWith (c # cs) sub \<or> includesText cs sub)"

fun replace :: "'a list \<Rightarrow> 'a list \<Rightarrow> 'a list \<Rightarrow> 'a list" where
  "replace [] pat rep = (if pat = [] then rep else [])"
| "replace (c # cs) pat rep =
     (if startsWith (c # cs) pat then rep @ drop (length pat) (c # cs)
      else c # replace cs pat rep)"

text \<open>Truthiness of a value that is a string or \<open>undefined\<close>: only a non-empty string
  is truthy.\<close>

definition truthy :: "jsstring option \<Rightarrow> bool" where
  "truthy v = (case v of None \<Rightarrow> False | Some s \<Rightarrow> s \<noteq> [])"

section \<open>The data model (types.ts)\<close>

datatype ApiErrorType =
  INVALID_KEY | RATE_LIMIT | NETWORK | BAD_RESPONSE | RESPONSE_BLOCKED | UNKNOWN

record ApiServiceError =
  errType :: ApiErrorType
  message :: jsstring

datatype AppState =
  HERO | ANALYSIS_INPUT | ANALYSIS_LOADING | IDEA_LOADING | IDEA_COMPLETE
  | PROTOTYPE_LOADING | PROTOTYPE_COMPLETE

datatype PrototypeType = type_html | type_text

record PrototypeResult =
  resultType :: PrototypeType
  content :: jsstring

text \<open>
  What \<open>JSON.parse\<close> returns. \<open>MarketAnalysis\<close> and \<open>GameLevel[]\<close> are compile-time
  interfaces only: the service casts the parsed value with \<open>as\<close> and checks nothing, so
  at run time the values that flow through the program are arbitrary JSON values. A number
  is kept as its literal text; an object keeps its members in source order (on a repeated
  key the last member is the one a property read sees).
\<close>

datatype json =
  JNull
  | JBool bool
  | JNumber jsstring
  | JString jsstring
  | JArray "json list"
  | JObject "(jsstring \<times> json) list"

text \<open>The interfaces \<open>Position\<close>, \<open>Entity\<close> and \<open>GameLevel\<close>, as predicates on the
  run-time value: an object with the declared members, each of the declared shape.\<close>

definition memberOf :: "json \<Rightarrow> string \<Rightarrow> json option" where
  "memberOf v k = (case v of JObject kvs \<Rightarrow> map_of (rev kvs) (js k) | _ \<Rightarrow> None)"

definition isNumber :: "json option \<Rightarrow> bool" where
  "isNumber v = (case v of Some (JNumber n) \<Rightarrow> True | _ \<Rightarrow> False)"

definition isString :: "json option \<Rightarrow> bool" where
  "isString v = (case v of Some (JString s) \<Rightarrow> True | _ \<Rightarrow> False)"

definition isArrayOf :: "(json option \<Rightarrow> bool) \<Rightarrow> json option \<Rightarrow> bool" where
  "isArrayOf p v = (case v of Some (JArray xs) \<Rightarrow> list_all (\<lambda>x. p (Some x)) xs | _ \<Rightarrow> False)"

definition isPosition :: "json option \<Rightarrow> bool" where
  "isPosition v =
     (case v of
        Some (JObject kvs) \<Rightarrow>
          isNumber (memberOf (JObject kvs) ''x'') \<and> isNumber (memberOf (JObject kvs) ''y'')
      | _ \<Rightarrow> False)"

definition isEntity :: "json option \<Rightarrow> bool" where
  "isEntity v =
     (case v of
        Some (JObject kvs) \<Rightarrow>
          isString (memberOf (JObject kvs) ''type'')
          \<and> isPosition (memberOf (JObject kvs) ''position'')
      | _ \<Rightarrow> False)"

definition isGameLevel :: "json option \<Rightarrow> bool" where
  "isGameLevel v =
     (case v of
        Some (JObject kvs) \<Rightarrow>
          isString (memberOf (JObject kvs) ''level_description'')
          \<and> isArrayOf (isArrayOf isString) (memberOf (JObject kvs) ''tilemap'')
          \<and> isArrayOf isEntity (memberOf (JObject kvs) ''entities'')
          \<and> isPosition (memberOf (JObject kvs) ''player_start'')
          \<and> isPosition (memberOf (JObject kvs) ''goal_position'')
          \<and> isArrayOf isPosition (memberOf (JObject kvs) ''solvable_path'')
          \<and> isString (memberOf (JObject kvs) ''validity_check'')
      | _ \<Rightarrow> False)"

text \<open>"An array containing exactly two GameLevel objects."\<close>

definition isTwoGameLevels :: "json \<Rightarrow> bool" where
  "isTwoGameLevels v =
     (case v of JArray xs \<Rightarrow> length xs = 2 \<and> list_all (\<lambda>x. isGameLevel (Some x)) xs
      | _ \<Rightarrow> False)"

section \<open>JSON.parse\<close>

text \<open>
  \<open>JSON.parse\<close> is a built-in of the language, not code of the repository. The service
  functions below take it from the environment, so what is proved about them holds for
  any parser. \<open>parseJson\<close> is a parser for the JSON grammar (ECMA-404), used where a
  theorem is evaluated at a concrete response text: a scanner that reads one code unit at
  a time, then a push-down recogniser over the tokens. \<open>None\<close> is the SyntaxError.
\<close>

datatype token =
  TLBrace | TRBrace | TLBracket | TRBracket | TColon | TComma
  | TLiteral json | TNumber jsstring | TString jsstring

datatype lexmode =
  LStart
  | LWord jsstring
  | LNumber jsstring
  | LString jsstring
  | LEscape jsstring
  | LUnicode jsstring "codeunit list"

definition isJsonSpace :: "codeunit \<Rightarrow> bool" where
  "isJsonSpace c = (c \<in> set [0x09, 0x0A, 0x0D, 0x20])"

definition isDigit :: "codeunit \<Rightarrow> bool" where
  "isDigit c = (cu CHR ''0'' \<le> c \<and> c \<le> cu CHR ''9'')"

definition isLower :: "codeunit \<Rightarrow> bool" where
  "isLower c = (cu CHR ''a'' \<le> c \<and> c \<le> cu CHR ''z'')"

definition isNumberChar :: "codeunit \<Rightarrow> bool" where
  "isNumberChar c = (isDigit c \<or> c \<in> set (js ''+-.eE''))"

definition hexDigit :: "codeunit \<Rightarrow> codeunit option" where
  "hexDigit c =
     (if isDigit c then Some (c - cu CHR ''0'')
      else if cu CHR ''a'' \<le> c \<and> c \<le> cu CHR ''f'' then Some (c - cu CHR ''a'' + 10)
      else if cu CHR ''A'' \<le> c \<and> c \<le> cu CHR ''F'' then Some (c - cu CHR ''A'' + 10)
      else None)"

definition digits :: "jsstring \<Rightarrow> bool" where
  "digits cs = (cs \<noteq> [] \<and> list_all isDigit cs)"

definition isJsonExponent :: "jsstring \<Rightarrow> bool" where
  "isJsonExponent r =
     (case r of
        [] \<Rightarrow> True
      | c # cs \<Rightarrow>
          (c = cu CHR ''e'' \<or> c = cu CHR ''E'')
          \<and> (if startsWith cs (js ''+'') \<or> startsWith cs (js ''-'') then digits (tl cs)
             else digits cs))"

definition isJsonFraction :: "jsstring \<Rightarrow> bool" where
  "isJsonFraction r =
     (case r of
        [] \<Rightarrow> True
      | c # cs \<Rightarrow>
          if c = cu CHR ''.''
          then takeWhile isDigit cs \<noteq> [] \<and> isJsonExponent (dropWhile isDigit cs)
          else isJsonExponent r)"

definition isJsonNumber :: "jsstring \<Rightarrow> bool" where
  "isJsonNumber s =
     (let u = (if startsWith s (js ''-'') then tl s else s);
          i = takeWhile isDigit u
      in i \<noteq> [] \<and> (i = js ''0'' \<or> \<not> startsWith i (js ''0''))
         \<and> isJsonFraction (dropWhile isDigit u))"

fun closeToken :: "lexmode \<Rightarrow> token list option" where
  "closeToken LStart = Some []"
| "closeToken (LWord w) =
     (if w = js ''null'' then Some [TLiteral JNull]
      else if w = js ''true'' then Some [TLiteral (JBool True)]
      else if w = js ''false'' then Some [TLiteral (JBool False)]
      else None)"
| "closeToken (LNumber n) = (if isJsonNumber n then Some [TNumber n] else None)"
| "closeToken _ = None"

definition startChar :: "codeunit \<Rightarrow> (token list \<times> lexmode) option" where
  "startChar c =
     (if isJsonSpace c then Some ([], LStart)
      else if c = cu CHR ''{'' then Some ([TLBrace], LStart)
      else if c = cu CHR ''}'' then Some ([TRBrace], LStart)
      else if c = cu CHR ''['' then Some ([TLBracket], LStart)
      else if c = cu CHR '']'' then Some ([TRBracket], LStart)
      else if c = cu CHR '':'' then Some ([TColon], LStart)
      else if c = cu CHR '','' then Some ([TComma], LStart)
      else if c = cu (CHR 0x22) then Some ([], LString [])
      else if isLower c then Some ([], LWord [c])
      else if isNumberChar c then Some ([], LNumber [c])
      else None)"

definition closeThenStart :: "lexmode \<Rightarrow> codeunit \<Rightarrow> (token list \<times> lexmode) option" where
  "closeThenStart m c =
     (case closeToken m of
        None \<Rightarrow> None
      | Some ts \<Rightarrow>
          (case startChar c of
             None \<Rightarrow> None
           | Some (ts', m') \<Rightarrow> Some (ts @ ts', m')))"

definition escapeChar :: "codeunit \<Rightarrow> codeunit option" where
  "escapeChar c =
     (if c = cu (CHR 0x22) then Some (cu (CHR 0x22))
      else if c = cu (CHR 0x5C) then Some (cu (CHR 0x5C))
      else if c = cu CHR ''/'' then Some (cu CHR ''/'')
      else if c = cu CHR ''b'' then Some 0x08
      else if c = cu CHR ''f'' then Some 0x0C
      else if c = cu CHR ''n'' then Some 0x0A
      else if c = cu CHR ''r'' then Some 0x0D
      else if c = cu CHR ''t'' then Some 0x09
      else None)"

fun lexStep :: "lexmode \<Rightarrow> codeunit \<Rightarrow> (token list \<times> lexmode) option" where
  "lexStep LStart c = startChar c"
| "lexStep (LWord w) c =
     (if isLower c then Some ([], LWord (w @ [c])) else closeThenStart (LWord w) c)"
| "lexStep (LNumber n) c =
     (if isNumberChar c then Some ([], LNumber (n @ [c])) else closeThenStart (LNumber n) c)"
| "lexStep (LString s) c =
     (if c = cu (CHR 0x22) then Some ([TString s], LStart)
      else if c = cu (CHR 0x5C) then Some ([], LEscape s)
      else if c < 0x20 then None
      else Some ([], LString (s @ [c])))"
| "lexStep (LEscape s) c =
     (if c = cu CHR ''u'' then Some ([], LUnicode s [])
      else (case escapeChar c of
              None \<Rightarrow> None
            | Some e \<Rightarrow> Some ([], LString (s @ [e]))))"
| "lexStep (LUnicode s ds) c =
     (case hexDigit c of
        None \<Rightarrow> None
      | Some d \<Rightarrow>
          if length ds = 3 then Some ([], LString (s @ [foldl (\<lambda>a x. a * 16 + x) 0 (ds @ [d])]))
          else Some ([], LUnicode s (ds @ [d])))"

fun lexer :: "lexmode \<Rightarrow> jsstring \<Rightarrow> token list option" where
  "lexer m [] = closeToken m"
| "lexer m (c # cs) =
     (case lexStep m c of
        None \<Rightarrow> None
      | Some (ts, m') \<Rightarrow> map_option ((@) ts) (lexer m' cs))"

datatype frame =
  FArray "json list"
  | FObject "(jsstring \<times> json) list" "jsstring option"

datatype pstate =
  ExpectValue bool
  | ExpectKey bool
  | ExpectColon
  | HaveValue json

definition parseStep :: "pstate \<Rightarrow> frame list \<Rightarrow> token \<Rightarrow> (pstate \<times> frame list) option" where
  "parseStep st stack t =
     (case st of
        ExpectValue closeOk \<Rightarrow>
          (case t of
             TLiteral v \<Rightarrow> Some (HaveValue v, stack)
           | TNumber n \<Rightarrow> Some (HaveValue (JNumber n), stack)
           | TString s \<Rightarrow> Some (HaveValue (JString s), stack)
           | TLBracket \<Rightarrow> Some (ExpectValue True, FArray [] # stack)
           | TLBrace \<Rightarrow> Some (ExpectKey True, FObject [] None # stack)
           | TRBracket \<Rightarrow>
               (case stack of
                  FArray xs # rest \<Rightarrow>
                    if closeOk then Some (HaveValue (JArray xs), rest) else None
                | _ \<Rightarrow> None)
           | _ \<Rightarrow> None)
      | ExpectKey closeOk \<Rightarrow>
          (case stack of
             FObject kvs None # rest \<Rightarrow>
               (case t of
                  TString k \<Rightarrow> Some (ExpectColon, FObject kvs (Some k) # rest)
                | TRBrace \<Rightarrow> if closeOk then Some (HaveValue (JObject kvs), rest) else None
                | _ \<Rightarrow> None)
           | _ \<Rightarrow> None)
      | ExpectColon \<Rightarrow>
          (case t of TColon \<Rightarrow> Some (ExpectValue False, stack) | _ \<Rightarrow> None)
      | HaveValue v \<Rightarrow>
          (case stack of
             FArray xs # rest \<Rightarrow>
               (case t of
                  TComma \<Rightarrow> Some (ExpectValue False, FArray (xs @ [v]) # rest)
                | TRBracket \<Rightarrow> Some (HaveValue (JArray (xs @ [v])), rest)
                | _ \<Rightarrow> None)
           | FObject kvs (Some k) # rest \<Rightarrow>
               (case t of
                  TComma \<Rightarrow> Some (ExpectKey False, FObject (kvs @ [(k, v)]) None # rest)
                | TRBrace \<Rightarrow> Some (HaveValue (JObject (kvs @ [(k, v)])), rest)
                | _ \<Rightarrow> None)
           | _ \<Rightarrow> None))"

fun parseTokens :: "pstate \<Rightarrow> frame list \<Rightarrow> token list \<Rightarrow> json option" where
  "parseTokens st stack [] =
     (case (st, stack) of (HaveValue v, []) \<Rightarrow> Some v | _ \<Rightarrow> None)"
| "parseTokens st stack (t # ts) =
     (case parseStep st stack t of
        None \<Rightarrow> None
      | Some (st', stack') \<Rightarrow> parseTokens st' stack' ts)"

definition parseJson :: "jsstring \<Rightarrow> json option" where
  "parseJson s =
     (case lexer LStart s of
        None \<Rightarrow> None
      | Some ts \<Rightarrow> parseTokens (ExpectValue False) [] ts)"

section \<open>The model call and its environment\<close>

text \<open>A value that was thrown: one of the service's own errors, a JavaScript \<open>Error\<close>
  (with whether it is a \<open>TypeError\<close>, and its message), or any other value, given by
  what \<open>String(value)\<close> makes of it.\<close>

datatype thrown =
  ThrownApiServiceError ApiServiceError
  | ThrownError bool jsstring
  | ThrownValue jsstring

text \<open>
  The prompt of a request is a fixed text with values interpolated; the request is kept
  as those values. \<open>structured\<close> says that the configuration asks for JSON output with a
  response schema.
\<close>

datatype prompt =
  MarketAnalysisPrompt jsstring
  | GameLevelsPrompt jsstring "json list" "json list"
  | PrototypePrompt "json option" "json option" "json option" "json option"

record request =
  model :: jsstring
  contents :: prompt
  structured :: bool

record candidate =
  finishReason :: "jsstring option"

record response =
  candidates :: "candidate list option"
  response_text :: "jsstring option"

text \<open>
  What the functions read from outside: \<open>process.env.API_KEY\<close>, the SDK's
  \<open>ai.models.generateContent\<close> (it returns a response or throws), \<open>JSON.parse\<close>, and the
  message the engine gives the TypeError of a failed property read or call.
\<close>

record env =
  API_KEY :: "jsstring option"
  generateContent :: "request \<Rightarrow> thrown + response"
  JSON_parse :: "jsstring \<Rightarrow> json option"
  typeErrorMessage :: jsstring

text \<open>What a run does besides returning: the model calls, the parse attempts, the
  console output and the \<open>setAppState\<close> calls, in order.\<close>

datatype event =
  GenerateContent request
  | JSONParse jsstring
  | ConsoleError
  | SetAppState AppState

text \<open>\<open>v.k\<close> for a value that may be \<open>undefined\<close>, for the member names the source reads
  (none of them a member of a string, a number, a boolean or an array): reading a member
  of \<open>undefined\<close> or \<open>null\<close> throws a TypeError. \<open>v.join(', ')\<close> is defined on arrays
  only; on any other value the call throws a TypeError.\<close>

definition getProperty :: "env \<Rightarrow> json option \<Rightarrow> string \<Rightarrow> thrown + json option" where
  "getProperty env v k =
     (case v of
        None \<Rightarrow> Inl (ThrownError True (typeErrorMessage env))
      | Some JNull \<Rightarrow> Inl (ThrownError True (typeErrorMessage env))
      | Some w \<Rightarrow> Inr (memberOf w k))"

definition callJoin :: "env \<Rightarrow> json option \<Rightarrow> thrown + json list" where
  "callJoin env v =
     (case v of
        Some (JArray xs) \<Rightarrow> Inr xs
      | _ \<Rightarrow> Inl (ThrownError True (typeErrorMessage env)))"

section \<open>The shared error classifier (services/geminiService.ts)\<close>

definition newApiServiceError :: "ApiErrorType \<Rightarrow> jsstring \<Rightarrow> ApiServiceError" where
  "newApiServiceError t m = \<lparr>errType = t, message = m\<rparr>"

fun isTypeError :: "thrown \<Rightarrow> bool" where
  "isTypeError (ThrownError b m) = b"
| "isTypeError _ = False"

fun errorMessageOf :: "thrown \<Rightarrow> jsstring" where
  "errorMessageOf (ThrownApiServiceError e) = message e"
| "errorMessageOf (ThrownError b m) = m"
| "errorMessageOf (ThrownValue s) = s"

definition handleApiError :: "thrown \<Rightarrow> ApiServiceError \<times> event list" where
  "handleApiError error =
     (case error of
        ThrownApiServiceError e \<Rightarrow> (e, [])
      | _ \<Rightarrow>
        (let errorMessage = errorMessageOf error in
         if includesText errorMessage (js ''API key not valid'')
            \<or> includesText errorMessage (js ''Requested entity was not found'')
         then (newApiServiceError INVALID_KEY (js ''API Key is invalid or not found.''), [])
         else if includesText errorMessage (js ''Rate limit exceeded'')
         then (newApiServiceError RATE_LIMIT (js ''You have exceeded the API rate limit.''), [])
         else if isTypeError error
              \<and> (includesText errorMessage (js ''fetch'')
                 \<or> includesText errorMessage (js ''network''))
         then (newApiServiceError NETWORK
                 (js ''A network error occurred. Please check your connection.''), [])
         else (newApiServiceError UNKNOWN (js ''An unknown API error occurred.''),
                 [ConsoleError])))"

section \<open>The three operations (services/geminiService.ts)\<close>

text \<open>\<open>response.candidates?.[0]?.finishReason\<close>, and the condition of the blocked check:
  the reason is truthy and is not \<open>'STOP'\<close>.\<close>

definition firstFinishReason :: "response \<Rightarrow> jsstring option" where
  "firstFinishReason response =
     (case candidates response of
        None \<Rightarrow> None
      | Some [] \<Rightarrow> None
      | Some (c # cs) \<Rightarrow> finishReason c)"

definition blockedReason :: "response \<Rightarrow> jsstring option" where
  "blockedReason response =
     (if truthy (firstFinishReason response) \<and> firstFinishReason response \<noteq> Some (js ''STOP'')
      then firstFinishReason response else None)"

definition throwApi :: "ApiErrorType \<Rightarrow> jsstring \<Rightarrow> thrown + 'a" where
  "throwApi t m = Inl (ThrownApiServiceError (newApiServiceError t m))"

text \<open>The body of a \<open>try\<close> block returns a value or throws; the \<open>catch\<close> around it
  rethrows \<open>handleApiError(error)\<close>. Constructing the SDK client from a non-empty key
  is taken to succeed; what the call itself does is the environment's
  \<open>generateContent\<close>.\<close>

definition catchHandleApiError ::
  "(thrown + 'a) \<times> event list \<Rightarrow> (ApiServiceError + 'a) \<times> event list" where
  "catchHandleApiError r =
     (case r of
        (Inl error, evs) \<Rightarrow> (Inl (fst (handleApiError error)), evs @ snd (handleApiError error))
      | (Inr v, evs) \<Rightarrow> (Inr v, evs))"

definition marketAnalysisRequest :: "jsstring \<Rightarrow> request" where
  "marketAnalysisRequest genre =
     \<lparr>model = js ''gemini-2.5-flash'', contents = MarketAnalysisPrompt genre,
      structured = True\<rparr>"

definition generateMarketAnalysis_try :: "env \<Rightarrow> jsstring \<Rightarrow> (thrown + json) \<times> event list" where
  "generateMarketAnalysis_try env genre =
     (let req = marketAnalysisRequest genre in
      case generateContent env req of
        Inl error \<Rightarrow> (Inl error, [GenerateContent req])
      | Inr response \<Rightarrow>
          (case blockedReason response of
             Some reason \<Rightarrow>
               (throwApi RESPONSE_BLOCKED (js ''Response was blocked due to: '' @ reason),
                [GenerateContent req])
           | None \<Rightarrow>
               (case response_text response of
                  None \<Rightarrow>
                    (throwApi BAD_RESPONSE (js ''Received an empty response from the AI.''),
                     [GenerateContent req])
                | Some t \<Rightarrow>
                    if t = []
                    then (throwApi BAD_RESPONSE (js ''Received an empty response from the AI.''),
                          [GenerateContent req])
                    else
                      (let jsonText = trim t in
                       case JSON_parse env jsonText of
                         Some v \<Rightarrow> (Inr v, [GenerateContent req, JSONParse jsonText])
                       | None \<Rightarrow>
                           (throwApi BAD_RESPONSE
                              (js ''Received malformed data for market analysis.''),
                            [GenerateContent req, JSONParse jsonText, ConsoleError])))))"

definition generateMarketAnalysis ::
  "env \<Rightarrow> jsstring \<Rightarrow> (ApiServiceError + json) \<times> event list" where
  "generateMarketAnalysis env genre =
     (if \<not> truthy (API_KEY env)
      then (Inl (newApiServiceError INVALID_KEY (js ''API Key is not configured.'')), [])
      else catchHandleApiError (generateMarketAnalysis_try env genre))"

text \<open>The prompt of generateGameLevels interpolates \<open>analysis.trends.join(', ')\<close> and
  \<open>analysis.mechanics.join(', ')\<close>, inside the \<open>try\<close>.\<close>

definition gameLevelsPrompt :: "env \<Rightarrow> jsstring \<Rightarrow> json \<Rightarrow> thrown + prompt" where
  "gameLevelsPrompt env genre analysis =
     (case getProperty env (Some analysis) ''trends'' of
        Inl e \<Rightarrow> Inl e
      | Inr trends \<Rightarrow>
     (case callJoin env trends of
        Inl e \<Rightarrow> Inl e
      | Inr ts \<Rightarrow>
     (case getProperty env (Some analysis) ''mechanics'' of
        Inl e \<Rightarrow> Inl e
      | Inr mechanics \<Rightarrow>
     (case callJoin env mechanics of
        Inl e \<Rightarrow> Inl e
      | Inr ms \<Rightarrow> Inr (GameLevelsPrompt genre ts ms)))))"

definition gameLevelsRequest :: "prompt \<Rightarrow> request" where
  "gameLevelsRequest p = \<lparr>model = js ''gemini-3-pro-preview'', contents = p, structured = True\<rparr>"

definition generateGameLevels_try ::
  "env \<Rightarrow> jsstring \<Rightarrow> json \<Rightarrow> (thrown + json) \<times> event list" where
  "generateGameLevels_try env genre analysis =
     (case gameLevelsPrompt env genre analysis of
        Inl error \<Rightarrow> (Inl error, [])
      | Inr p \<Rightarrow>
     (let req = gameLevelsRequest p in
      case generateContent env req of
        Inl error \<Rightarrow> (Inl error, [GenerateContent req])
      | Inr response \<Rightarrow>
          (case blockedReason response of
             Some reason \<Rightarrow>
               (throwApi RESPONSE_BLOCKED (js ''Response was blocked due to: '' @ reason),
                [GenerateContent req])
           | None \<Rightarrow>
               (case response_text response of
                  None \<Rightarrow>
                    (throwApi BAD_RESPONSE (js ''Received an empty response from the AI.''),
                     [GenerateContent req])
                | Some t \<Rightarrow>
                    if t = []
                    then (throwApi BAD_RESPONSE (js ''Received an empty response from the AI.''),
                          [GenerateContent req])
                    else
                      (let jsonText = trim t in
                       case JSON_parse env jsonText of
                         Some v \<Rightarrow> (Inr v, [GenerateContent req, JSONParse jsonText])
                       | None \<Rightarrow>
                           (throwApi BAD_RESPONSE
                              (js ''Received malformed data for game ideas.''),
                            [GenerateContent req, JSONParse jsonText, ConsoleError]))))))"

definition generateGameLevels ::
  "env \<Rightarrow> jsstring \<Rightarrow> json \<Rightarrow> (ApiServiceError + json) \<times> event list" where
  "generateGameLevels env genre analysis =
     (if \<not> truthy (API_KEY env)
      then (Inl (newApiServiceError INVALID_KEY (js ''API Key is not configured.'')), [])
      else catchHandleApiError (generateGameLevels_try env genre analysis))"

text \<open>The prompt of generatePrototype interpolates \<open>JSON.stringify\<close> of \<open>level.tilemap\<close>,
  \<open>level.player_start\<close> and \<open>level.goal_position\<close>, and \<open>level.player_start.x\<close>.\<close>

definition prototypePrompt :: "env \<Rightarrow> json \<Rightarrow> thrown + prompt" where
  "prototypePrompt env level =
     (case getProperty env (Some level) ''tilemap'' of
        Inl e \<Rightarrow> Inl e
      | Inr tilemap \<Rightarrow>
     (case getProperty env (Some level) ''player_start'' of
        Inl e \<Rightarrow> Inl e
      | Inr player_start \<Rightarrow>
     (case getProperty env (Some level) ''goal_position'' of
        Inl e \<Rightarrow> Inl e
      | Inr goal_position \<Rightarrow>
     (case getProperty env player_start ''x'' of
        Inl e \<Rightarrow> Inl e
      | Inr x \<Rightarrow> Inr (PrototypePrompt tilemap player_start goal_position x)))))"

definition prototypeRequest :: "prompt \<Rightarrow> request" where
  "prototypeRequest p = \<lparr>model = js ''gemini-3-pro-preview'', contents = p, structured = False\<rparr>"

text \<open>The template literal around \<open>${content}\<close>: the text before it and the text after.\<close>

definition stylePreamble :: jsstring where
  "stylePreamble = js (
     ''\<newline>'' @
     ''                <style>\<newline>'' @
     ''                    body, html { \<newline>'' @
     ''                        margin: 0; \<newline>'' @
     ''                        padding: 0; \<newline>'' @
     ''                        overflow: hidden; \<newline>'' @
     ''                        background-color: #EAF2CE;\<newline>'' @
     ''                    }\<newline>'' @
     ''                    canvas { \<newline>'' @
     ''                        display: block; \<newline>'' @
     ''                    }\<newline>'' @
     ''                </style>\<newline>'' @
     ''                '')"

definition styleEnd :: jsstring where
  "styleEnd = js (''\<newline>'' @ ''            '')"

definition generatePrototype_try ::
  "env \<Rightarrow> json \<Rightarrow> (thrown + PrototypeResult) \<times> event list" where
  "generatePrototype_try env level =
     (case prototypePrompt env level of
        Inl error \<Rightarrow> (Inl error, [])
      | Inr p \<Rightarrow>
     (let req = prototypeRequest p in
      case generateContent env req of
        Inl error \<Rightarrow> (Inl error, [GenerateContent req])
      | Inr response \<Rightarrow>
          (let content = map_option trim (response_text response) in
           case content of
             None \<Rightarrow>
               (throwApi BAD_RESPONSE
                  (js ''Received an empty prototype response from the AI.''),
                [GenerateContent req])
           | Some c \<Rightarrow>
               if c = []
               then (throwApi BAD_RESPONSE
                       (js ''Received an empty prototype response from the AI.''),
                     [GenerateContent req])
               else if startsWith c (js ''PROTOTYPE_UNFEASIBLE:'')
               then (Inr \<lparr>resultType = type_text,
                          content = trim (replace c (js ''PROTOTYPE_UNFEASIBLE:'') [])\<rparr>,
                     [GenerateContent req])
               else (Inr \<lparr>resultType = type_html, content = stylePreamble @ c @ styleEnd\<rparr>,
                     [GenerateContent req]))))"

definition generatePrototype ::
  "env \<Rightarrow> json \<Rightarrow> (ApiServiceError + PrototypeResult) \<times> event list" where
  "generatePrototype env level =
     (if \<not> truthy (API_KEY env)
      then (Inl (newApiServiceError INVALID_KEY (js ''API Key is not configured.'')), [])
      else catchHandleApiError (generatePrototype_try env level))"

section \<open>The application state machine (App.tsx)\<close>

text \<open>
  The component's state, one field per \<open>useState\<close> (the set of pressed keys, which no
  handler below touches, is left out). A handler is a function from the state at the
  click to the state once its promise has settled, with the events of the run; other
  user actions during the run are not interleaved.
\<close>

record App =
  isApiKeySelected :: bool
  appState :: AppState
  genre :: jsstring
  marketAnalysis :: "json option"
  gameIdeas :: "json option"
  prototypeResult :: "PrototypeResult option"
  error :: "jsstring option"

definition handleStartAnalysis :: "App \<Rightarrow> App \<times> event list" where
  "handleStartAnalysis st = (st\<lparr>appState := ANALYSIS_INPUT\<rparr>, [SetAppState ANALYSIS_INPUT])"

text \<open>The \<open>catch\<close> block of handleAnalyzeGenre: the message and the reset flag chosen
  by the \<open>switch\<close>, then the three setters.\<close>

definition analyzeErrorMessage :: "thrown \<Rightarrow> jsstring \<times> bool" where
  "analyzeErrorMessage err =
     (case err of
        ThrownApiServiceError e \<Rightarrow>
          (case errType e of
             INVALID_KEY \<Rightarrow>
               (js (''Your API Key is invalid or missing permissions. '' @
                    ''Please select a valid API key to continue.''), True)
           | RATE_LIMIT \<Rightarrow>
               (js (''You've exceeded the API rate limit. '' @
                    ''Please wait a moment and try again.''), False)
           | NETWORK \<Rightarrow>
               (js (''A network error occurred. '' @
                    ''Please check your connection and try again.''), False)
           | BAD_RESPONSE \<Rightarrow>
               (js (''The AI returned a response that couldn't be understood. '' @
                    ''Please try again.''), False)
           | RESPONSE_BLOCKED \<Rightarrow>
               (js (''The AI's response was blocked due to content safety policies. '' @
                    ''Please try modifying your prompt.''), False)
           | UNKNOWN \<Rightarrow>
               (js (''An unknown error occurred while contacting the AI service. '' @
                    ''Please try again.''), False))
      | _ \<Rightarrow> (js ''An unexpected error occurred. Please try again.'', False))"

definition analyzeCatch :: "thrown \<Rightarrow> App \<Rightarrow> App \<times> event list" where
  "analyzeCatch err st =
     (let (errorMessage, resetApiKey) = analyzeErrorMessage err;
          st1 = st\<lparr>error := Some errorMessage\<rparr>;
          st2 = (if resetApiKey then st1\<lparr>isApiKeySelected := False\<rparr> else st1)
      in (st2\<lparr>appState := ANALYSIS_INPUT\<rparr>, [ConsoleError, SetAppState ANALYSIS_INPUT]))"

definition handleAnalyzeGenre :: "env \<Rightarrow> App \<Rightarrow> App \<times> event list" where
  "handleAnalyzeGenre env st =
     (if trim (genre st) = []
      then (st\<lparr>error := Some (js ''Please enter a game genre.''),
               appState := ANALYSIS_INPUT\<rparr>,
            [SetAppState ANALYSIS_INPUT])
      else
        (let st1 = st\<lparr>error := None, appState := ANALYSIS_LOADING\<rparr> in
         case generateMarketAnalysis env (genre st) of
           (Inl err, evs1) \<Rightarrow>
             (case analyzeCatch (ThrownApiServiceError err) st1 of
                (st', evs') \<Rightarrow> (st', SetAppState ANALYSIS_LOADING # evs1 @ evs'))
         | (Inr analysis, evs1) \<Rightarrow>
             (let st2 = st1\<lparr>marketAnalysis := Some analysis, appState := IDEA_LOADING\<rparr> in
              case generateGameLevels env (genre st) analysis of
                (Inl err, evs2) \<Rightarrow>
                  (case analyzeCatch (ThrownApiServiceError err) st2 of
                     (st', evs') \<Rightarrow>
                       (st', SetAppState ANALYSIS_LOADING # evs1
                             @ SetAppState IDEA_LOADING # evs2 @ evs'))
              | (Inr ideas, evs2) \<Rightarrow>
                  (st2\<lparr>gameIdeas := Some ideas, appState := IDEA_COMPLETE\<rparr>,
                   SetAppState ANALYSIS_LOADING # evs1
                   @ SetAppState IDEA_LOADING # evs2 @ [SetAppState IDEA_COMPLETE]))))"

text \<open>The \<open>catch\<close> block of handleGeneratePrototype.\<close>

definition prototypeErrorMessage :: "thrown \<Rightarrow> jsstring \<times> bool" where
  "prototypeErrorMessage err =
     (case err of
        ThrownApiServiceError e \<Rightarrow>
          (case errType e of
             INVALID_KEY \<Rightarrow>
               (js (''Your API Key is invalid or missing permissions. '' @
                    ''Please select a valid API key to continue.''), True)
           | RATE_LIMIT \<Rightarrow>
               (js (''You've exceeded the API rate limit. '' @
                    ''Please wait a moment and try again.''), False)
           | NETWORK \<Rightarrow>
               (js (''A network error occurred. '' @
                    ''Please check your connection and try again.''), False)
           | RESPONSE_BLOCKED \<Rightarrow>
               (js (''The AI's response for the prototype was blocked due to content '' @
                    ''safety policies. This can sometimes happen with code generation. '' @
                    ''Please try again.''), False)
           | _ \<Rightarrow>
               (js (''An unknown error occurred while generating the prototype. '' @
                    ''Please try again.''), False))
      | _ \<Rightarrow> (js ''Failed to generate prototype. Please try again.'', False))"

definition prototypeCatch :: "thrown \<Rightarrow> App \<Rightarrow> App \<times> event list" where
  "prototypeCatch err st =
     (let (errorMessage, resetApiKey) = prototypeErrorMessage err;
          st1 = st\<lparr>error := Some errorMessage\<rparr>
      in if resetApiKey
         then (st1\<lparr>isApiKeySelected := False, appState := ANALYSIS_INPUT\<rparr>,
               [ConsoleError, SetAppState ANALYSIS_INPUT])
         else (st1\<lparr>appState := IDEA_COMPLETE\<rparr>, [ConsoleError, SetAppState IDEA_COMPLETE]))"

definition handleGeneratePrototype :: "env \<Rightarrow> json \<Rightarrow> App \<Rightarrow> App \<times> event list" where
  "handleGeneratePrototype env ideaToPrototype st =
     (let st1 = st\<lparr>appState := PROTOTYPE_LOADING, error := None\<rparr> in
      case generatePrototype env ideaToPrototype of
        (Inr result, evs) \<Rightarrow>
          (st1\<lparr>prototypeResult := Some result, appState := PROTOTYPE_COMPLETE\<rparr>,
           SetAppState PROTOTYPE_LOADING # evs @ [SetAppState PROTOTYPE_COMPLETE])
      | (Inl err, evs) \<Rightarrow>
          (case prototypeCatch (ThrownApiServiceError err) st1 of
             (st', evs') \<Rightarrow> (st', SetAppState PROTOTYPE_LOADING # evs @ evs')))"

text \<open>The model calls among the events of a run.\<close>

definition requestsOf :: "event list \<Rightarrow> request list" where
  "requestsOf evs = concat (map (\<lambda>e. case e of GenerateContent r \<Rightarrow> [r] | _ \<Rightarrow> []) evs)"

definition parsesOf :: "event list \<Rightarrow> jsstring list" where
  "parsesOf evs = concat (map (\<lambda>e. case e of JSONParse s \<Rightarrow> [s] | _ \<Rightarrow> []) evs)"

definition appStatesOf :: "event list \<Rightarrow> AppState list" where
  "appStatesOf evs = concat (map (\<lambda>e. case e of SetAppState s \<Rightarrow> [s] | _ \<Rightarrow> []) evs)"

section \<open>Concrete environments\<close>

text \<open>An environment with the JSON parser above and the message V8 gives, whose model
  call answers the market-analysis model with one outcome and the other model with
  another.\<close>

definition answers ::
  "(thrown + response) \<Rightarrow> (thrown + response) \<Rightarrow> request \<Rightarrow> thrown + response" where
  "answers flash pro req = (if model req = js ''gemini-2.5-flash'' then flash else pro)"

definition browser :: "jsstring option \<Rightarrow> (request \<Rightarrow> thrown + response) \<Rightarrow> env" where
  "browser key transport =
     \<lparr>API_KEY = key, generateContent = transport, JSON_parse = parseJson,
      typeErrorMessage = js ''Cannot read properties of undefined''\<rparr>"

definition reply :: "string option \<Rightarrow> string option \<Rightarrow> thrown + response" where
  "reply reason t =
     Inr \<lparr>candidates = Some [\<lparr>finishReason = map_option js reason\<rparr>],
          response_text = map_option js t\<rparr>"

definition initialApp :: App where
  "initialApp =
     \<lparr>isApiKeySelected = True, appState = ANALYSIS_INPUT, genre = js ''Cozy Farming Sim'',
      marketAnalysis = None, gameIdeas = None, prototypeResult = None, error = None\<rparr>"

text \<open>A market analysis as the first operation is asked to return it.\<close>

definition sampleAnalysis :: json where
  "sampleAnalysis =
     JObject [(js ''trends'', JArray [JString (js ''cozy'')]),
              (js ''mechanics'', JArray [JString (js ''farming'')]),
              (js ''monetization'', JArray [JString (js ''cosmetics'')])]"

text \<open>A level as the second operation is asked to return it: a corridor of three
  tiles under a ceiling.\<close>

definition samplePosition :: "string \<Rightarrow> string \<Rightarrow> json" where
  "samplePosition x y = JObject [(js ''x'', JNumber (js x)), (js ''y'', JNumber (js y))]"

definition sampleLevel :: json where
  "sampleLevel =
     JObject [(js ''level_description'', JString (js ''Corridor'')),
              (js ''tilemap'',
                 JArray [JArray [JString (js ''#''), JString (js ''#''), JString (js ''#'')],
                         JArray [JString (js ''.''), JString (js ''.''), JString (js ''.'')]]),
              (js ''entities'', JArray []),
              (js ''player_start'', samplePosition ''0'' ''1''),
              (js ''goal_position'', samplePosition ''2'' ''1''),
              (js ''solvable_path'',
                 JArray [samplePosition ''0'' ''1'', samplePosition ''2'' ''1'']),
              (js ''validity_check'', JString (js ''ok''))]"

text \<open>Response texts: a market analysis, and an array with no level in it.\<close>

definition sampleAnalysisText :: string where
  "sampleAnalysisText =
     ''{\"trends\": [\"cozy\"], \"mechanics\": [\"farming\"], '' @
     ''\"monetization\": [\"cosmetics\"]}\<newline>''"

definition rateLimitError :: thrown where
  "rateLimitError = ThrownError False (js ''Rate limit exceeded during request'')"

text \<open>The text of a response that holds the sample level twice.\<close>

definition sampleLevelText :: string where
  "sampleLevelText =
     ''{\"level_description\":\"Corridor\",'' @
     ''\"tilemap\":[[\"#\",\"#\",\"#\"],[\".\",\".\",\".\"]],'' @
     ''\"entities\":[],'' @
     ''\"player_start\":{\"x\":0,\"y\":1},'' @
     ''\"goal_position\":{\"x\":2,\"y\":1},'' @
     ''\"solvable_path\":[{\"x\":0,\"y\":1},{\"x\":2,\"y\":1}],'' @
     ''\"validity_check\":\"ok\"}''"

definition sampleLevelsText :: string where
  "sampleLevelsText = ''['' @ sampleLevelText @ '','' @ sampleLevelText @ '']''"

section \<open>Facts about the string operations\<close>

lemma startsWith_iff: "startsWith s p \<longleftrightarrow> (\<exists>post. s = p @ post)"
proof
  assume "startsWith s p"
  then have "s = p @ drop (length p) s"
    unfolding startsWith_def by (metis append_take_drop_id)
  then show "\<exists>post. s = p @ post" ..
next
  assume "\<exists>post. s = p @ post"
  then show "startsWith s p" unfolding startsWith_def by auto
qed

lemma includesText_iff: "includesText s sub \<longleftrightarrow> (\<exists>pre post. s = pre @ sub @ post)"
proof (induction s)
  case Nil
  show ?case by auto
next
  case (Cons c cs)
  show ?case
  proof
    assume "includesText (c # cs) sub"
    then consider "startsWith (c # cs) sub" | "includesText cs sub" by auto
    then show "\<exists>pre post. c # cs = pre @ sub @ post"
    proof cases
      case 1
      then obtain post where "c # cs = sub @ post" using startsWith_iff by blast
      then have "c # cs = [] @ sub @ post" by simp
      then show ?thesis by blast
    next
      case 2
      then obtain pre post where "cs = pre @ sub @ post" using Cons.IH by blast
      then have "c # cs = (c # pre) @ sub @ post" by simp
      then show ?thesis by blast
    qed
  next
    assume "\<exists>pre post. c # cs = pre @ sub @ post"
    then obtain pre post where eq: "c # cs = pre @ sub @ post" by blast
    show "includesText (c # cs) sub"
    proof (cases pre)
      case Nil
      with eq have "startsWith (c # cs) sub" using startsWith_iff by fastforce
      then show ?thesis by simp
    next
      case (Cons p ps)
      with eq have "cs = ps @ sub @ post" by simp
      then have "includesText cs sub" using Cons.IH by blast
      then show ?thesis by simp
    qed
  qed
qed

lemma js_append: "js (a @ b) = js a @ js b"
  by (simp add: js_def)

lemma js_eq_iff [simp]: "js a = js b \<longleftrightarrow> a = b"
proof -
  have "inj cu"
  proof (rule injI)
    fix x y :: char
    assume "cu x = cu y"
    then have "(of_nat (of_char x) :: 16 word) = of_nat (of_char y)" by (simp add: cu_def)
    then have "unat (of_nat (of_char x) :: 16 word) = unat (of_nat (of_char y) :: 16 word)"
      by simp
    moreover have "(of_char x :: nat) < 256" "(of_char y :: nat) < 256"
      by (metis of_char_mod_256 mod_less_divisor zero_less_numeral)+
    ultimately have "(of_char x :: nat) = of_char y"
      by (simp add: unat_of_nat)
    then show "x = y" by simp
  qed
  then show ?thesis by (simp add: js_def inj_map_eq_map)
qed

lemma js_Nil_iff [simp]: "js a = [] \<longleftrightarrow> a = []"
  by (simp add: js_def)

lemma trim_Nil [simp]: "trim [] = []"
  by (simp add: trim_def)

lemma replace_prefix: "startsWith s p \<Longrightarrow> replace s p [] = drop (length p) s"
  by (cases s) (auto simp: startsWith_def)

lemma trim_eq_Nil_iff: "trim s = [] \<longleftrightarrow> (\<forall>c\<in>set s. isWhiteSpace c)"
proof -
  have "trim s = [] \<longleftrightarrow> (\<forall>c\<in>set (dropWhile isWhiteSpace s). isWhiteSpace c)"
    by (simp add: trim_def dropWhile_eq_Nil_conv)
  also have "\<dots> \<longleftrightarrow> dropWhile isWhiteSpace s = []"
  proof
    assume all: "\<forall>c\<in>set (dropWhile isWhiteSpace s). isWhiteSpace c"
    show "dropWhile isWhiteSpace s = []"
    proof (rule ccontr)
      assume ne: "dropWhile isWhiteSpace s \<noteq> []"
      then have "\<not> isWhiteSpace (hd (dropWhile isWhiteSpace s))" by (rule hd_dropWhile)
      moreover have "hd (dropWhile isWhiteSpace s) \<in> set (dropWhile isWhiteSpace s)"
        using ne by (rule hd_in_set)
      ultimately show False using all by blast
    qed
  next
    assume e: "dropWhile isWhiteSpace s = []"
    show "\<forall>c\<in>set (dropWhile isWhiteSpace s). isWhiteSpace c"
      unfolding e by simp
  qed
  also have "\<dots> \<longleftrightarrow> (\<forall>c\<in>set s. isWhiteSpace c)"
    by (simp add: dropWhile_eq_Nil_conv)
  finally show ?thesis .
qed

lemma adjacent_Cons: "(a, b) \<in> set (zip xs (tl xs)) \<Longrightarrow> (a, b) \<in> set (zip (p # xs) xs)"
  by (cases xs) auto

lemma adjacent_append: "(a, b) \<in> set (zip (pre @ a # b # rest) (tl (pre @ a # b # rest)))"
proof (induction pre)
  case Nil
  show ?case by simp
next
  case (Cons p ps)
  from adjacent_Cons [OF Cons.IH, of p] show ?case by simp
qed

lemma includesText_adjacent:
  assumes "includesText s (a # b # r)"
  shows "(a, b) \<in> set (zip s (tl s))"
proof -
  obtain pre post where "s = pre @ (a # b # r) @ post"
    using assms unfolding includesText_iff by blast
  then have "s = pre @ a # b # (r @ post)" by simp
  then show ?thesis using adjacent_append [of a b pre "r @ post"] by simp
qed

section \<open>Facts about the three operations\<close>

lemma truthy_simps [simp]:
  "truthy None = False" "truthy (Some s) = (s \<noteq> [])"
  by (simp_all add: truthy_def)

lemma catch_throwApi:
  "catchHandleApiError (throwApi t m, evs) = (Inl (newApiServiceError t m), evs)"
  by (simp add: catchHandleApiError_def throwApi_def handleApiError_def)

lemma catch_value: "catchHandleApiError (Inr v, evs) = (Inr v, evs)"
  by (simp add: catchHandleApiError_def)

lemma blockedReason_Some:
  "firstFinishReason response = Some reason \<Longrightarrow> reason \<noteq> [] \<Longrightarrow> reason \<noteq> js ''STOP''
   \<Longrightarrow> blockedReason response = Some reason"
  by (simp add: blockedReason_def)

lemma generateMarketAnalysis_blocked:
  assumes "truthy (API_KEY env)"
      and "generateContent env (marketAnalysisRequest g) = Inr response"
      and "blockedReason response = Some reason"
  shows "generateMarketAnalysis env g =
           (Inl (newApiServiceError RESPONSE_BLOCKED (js ''Response was blocked due to: '' @ reason)),
            [GenerateContent (marketAnalysisRequest g)])"
  using assms
  by (simp add: generateMarketAnalysis_def generateMarketAnalysis_try_def catch_throwApi)

lemma generateGameLevels_blocked:
  assumes "truthy (API_KEY env)"
      and "gameLevelsPrompt env g analysis = Inr p"
      and "generateContent env (gameLevelsRequest p) = Inr response"
      and "blockedReason response = Some reason"
  shows "generateGameLevels env g analysis =
           (Inl (newApiServiceError RESPONSE_BLOCKED (js ''Response was blocked due to: '' @ reason)),
            [GenerateContent (gameLevelsRequest p)])"
  using assms
  by (simp add: generateGameLevels_def generateGameLevels_try_def catch_throwApi)

lemma blocked_message_includes:
  "includesText (js ''Response was blocked due to: '' @ reason) reason"
proof -
  have "js ''Response was blocked due to: '' @ reason = js ''Response was blocked due to: '' @ reason @ []"
    by simp
  then show ?thesis unfolding includesText_iff by blast
qed

lemma gameLevelsPrompt_sample:
  "gameLevelsPrompt env g sampleAnalysis =
     Inr (GameLevelsPrompt g [JString (js ''cozy'')] [JString (js ''farming'')])"
  by (simp add: gameLevelsPrompt_def sampleAnalysis_def getProperty_def callJoin_def
        memberOf_def)

lemma generateMarketAnalysis_empty:
  assumes "truthy (API_KEY env)"
      and "generateContent env (marketAnalysisRequest g) = Inr response"
      and "blockedReason response = None"
      and "\<not> truthy (response_text response)"
  shows "generateMarketAnalysis env g =
           (Inl (newApiServiceError BAD_RESPONSE (js ''Received an empty response from the AI.'')),
            [GenerateContent (marketAnalysisRequest g)])"
  using assms
  by (cases "response_text response")
     (simp_all add: generateMarketAnalysis_def generateMarketAnalysis_try_def catch_throwApi)

lemma generateGameLevels_empty:
  assumes "truthy (API_KEY env)"
      and "gameLevelsPrompt env g analysis = Inr p"
      and "generateContent env (gameLevelsRequest p) = Inr response"
      and "blockedReason response = None"
      and "\<not> truthy (response_text response)"
  shows "generateGameLevels env g analysis =
           (Inl (newApiServiceError BAD_RESPONSE (js ''Received an empty response from the AI.'')),
            [GenerateContent (gameLevelsRequest p)])"
  using assms
  by (cases "response_text response")
     (simp_all add: generateGameLevels_def generateGameLevels_try_def catch_throwApi)

lemma generatePrototype_empty:
  assumes "truthy (API_KEY env)"
      and "prototypePrompt env level = Inr p"
      and "generateContent env (prototypeRequest p) = Inr response"
      and "\<not> truthy (response_text response)"
  shows "generatePrototype env level =
           (Inl (newApiServiceError BAD_RESPONSE
                   (js ''Received an empty prototype response from the AI.'')),
            [GenerateContent (prototypeRequest p)])"
  using assms
  by (cases "response_text response")
     (simp_all add: generatePrototype_def generatePrototype_try_def catch_throwApi)

lemma generateMarketAnalysis_parse:
  assumes "truthy (API_KEY env)"
      and "generateContent env (marketAnalysisRequest g) = Inr response"
      and "blockedReason response = None"
      and "response_text response = Some t"
      and "t \<noteq> []"
  shows "generateMarketAnalysis env g =
           (case JSON_parse env (trim t) of
              Some v \<Rightarrow>
                (Inr v, [GenerateContent (marketAnalysisRequest g), JSONParse (trim t)])
            | None \<Rightarrow>
                (Inl (newApiServiceError BAD_RESPONSE
                        (js ''Received malformed data for market analysis.'')),
                 [GenerateContent (marketAnalysisRequest g), JSONParse (trim t), ConsoleError]))"
  using assms
  by (simp add: generateMarketAnalysis_def generateMarketAnalysis_try_def catch_throwApi
        catch_value split: option.split)

lemma generateGameLevels_parse:
  assumes "truthy (API_KEY env)"
      and "gameLevelsPrompt env g analysis = Inr p"
      and "generateContent env (gameLevelsRequest p) = Inr response"
      and "blockedReason response = None"
      and "response_text response = Some t"
      and "t \<noteq> []"
  shows "generateGameLevels env g analysis =
           (case JSON_parse env (trim t) of
              Some v \<Rightarrow>
                (Inr v, [GenerateContent (gameLevelsRequest p), JSONParse (trim t)])
            | None \<Rightarrow>
                (Inl (newApiServiceError BAD_RESPONSE
                        (js ''Received malformed data for game ideas.'')),
                 [GenerateContent (gameLevelsRequest p), JSONParse (trim t), ConsoleError]))"
  using assms
  by (simp add: generateGameLevels_def generateGameLevels_try_def catch_throwApi
        catch_value split: option.split)

lemma browser_simps [simp]:
  "API_KEY (browser key transport) = key"
  "generateContent (browser key transport) = transport"
  "JSON_parse (browser key transport) = parseJson"
  by (simp_all add: browser_def)

lemma answers_flash [simp]: "answers a b (marketAnalysisRequest g) = a"
  by (simp add: answers_def marketAnalysisRequest_def)

lemma answers_pro [simp]:
  "answers a b (gameLevelsRequest p) = b" "answers a b (prototypeRequest p) = b"
  by (simp_all add: answers_def gameLevelsRequest_def prototypeRequest_def)

lemma firstFinishReason_reply [simp]:
  "firstFinishReason \<lparr>candidates = Some [\<lparr>finishReason = r\<rparr>], response_text = t\<rparr> = r"
  by (simp add: firstFinishReason_def)

lemma blockedReason_stop [simp]:
  "blockedReason \<lparr>candidates = Some [\<lparr>finishReason = Some (js ''STOP'')\<rparr>], response_text = t\<rparr> = None"
  by (simp add: blockedReason_def)

lemma prototypePrompt_sample:
  "prototypePrompt env sampleLevel =
     Inr (PrototypePrompt (memberOf sampleLevel ''tilemap'')
            (Some (samplePosition ''0'' ''1'')) (Some (samplePosition ''2'' ''1''))
            (Some (JNumber (js ''0''))))"
  by (simp add: prototypePrompt_def sampleLevel_def getProperty_def memberOf_def
        samplePosition_def)

lemma parse_apology: "parseJson (trim (js ''I cannot help with that.'')) = None"
  by code_simp

lemma parse_truncated: "parseJson (trim (js ''{\"trends\": [\"cozy'')) = None"
  by code_simp

lemma generatePrototype_text:
  assumes "truthy (API_KEY env)"
      and "prototypePrompt env level = Inr p"
      and "generateContent env (prototypeRequest p) = Inr response"
      and "response_text response = Some t"
      and "trim t \<noteq> []"
  shows "generatePrototype env level =
           (if startsWith (trim t) (js ''PROTOTYPE_UNFEASIBLE:'')
            then Inr \<lparr>resultType = type_text,
                      content = trim (replace (trim t) (js ''PROTOTYPE_UNFEASIBLE:'') [])\<rparr>
            else Inr \<lparr>resultType = type_html, content = stylePreamble @ trim t @ styleEnd\<rparr>,
            [GenerateContent (prototypeRequest p)])"
  using assms
  by (simp add: generatePrototype_def generatePrototype_try_def catch_value)

lemma trim_unfeasible:
  "trim (js ''  PROTOTYPE_UNFEASIBLE: goal unreachable\<newline>'') =
     js ''PROTOTYPE_UNFEASIBLE:'' @ js '' goal unreachable''"
  by code_simp

lemma trim_reason: "trim (js '' goal unreachable'') = js ''goal unreachable''"
  by code_simp

lemma trim_canvas:
  "trim (js ''\<newline><canvas id=\"gameCanvas\"></canvas>\<newline>'') =
     js ''<canvas id=\"gameCanvas\"></canvas>''"
  by code_simp

lemma canvas_not_marker:
  "\<not> startsWith (js ''<canvas id=\"gameCanvas\"></canvas>'') (js ''PROTOTYPE_UNFEASIBLE:'')"
  by code_simp

lemma raw_canvas_not_included:
  "\<not> includesText
       (stylePreamble @ js ''<canvas id=\"gameCanvas\"></canvas>'' @ styleEnd)
       (js ''\<newline><canvas id=\"gameCanvas\"></canvas>\<newline>'')"
proof
  assume "includesText
       (stylePreamble @ js ''<canvas id=\"gameCanvas\"></canvas>'' @ styleEnd)
       (js ''\<newline><canvas id=\"gameCanvas\"></canvas>\<newline>'')"
  then have "includesText
       (stylePreamble @ js ''<canvas id=\"gameCanvas\"></canvas>'' @ styleEnd)
       (cu CHR ''\<newline>'' # cu CHR ''<'' # js ''canvas id=\"gameCanvas\"></canvas>\<newline>'')"
    by (simp add: js_def)
  then have "(cu CHR ''\<newline>'', cu CHR ''<'') \<in>
      set (zip (stylePreamble @ js ''<canvas id=\"gameCanvas\"></canvas>'' @ styleEnd)
               (tl (stylePreamble @ js ''<canvas id=\"gameCanvas\"></canvas>'' @ styleEnd)))"
    by (rule includesText_adjacent)
  then show False
    by (simp add: stylePreamble_def styleEnd_def js_def cu_def)
qed

lemma generateGameLevels_throws:
  assumes "truthy (API_KEY env)"
      and "gameLevelsPrompt env g analysis = Inr p"
      and "generateContent env (gameLevelsRequest p) = Inl err"
  shows "fst (generateGameLevels env g analysis) = Inl (fst (handleApiError err))"
  using assms
  by (simp add: generateGameLevels_def generateGameLevels_try_def catchHandleApiError_def)

lemma trim_genre: "trim (js ''Cozy Farming Sim'') = js ''Cozy Farming Sim''"
  by code_simp

lemma parse_sampleAnalysis: "parseJson (trim (js sampleAnalysisText)) = Some sampleAnalysis"
  by code_simp

lemma classify_rateLimit:
  "fst (handleApiError rateLimitError) =
     \<lparr>errType = RATE_LIMIT, message = js ''You have exceeded the API rate limit.''\<rparr>"
  by code_simp

lemma generateGameLevels_success:
  assumes "fst (generateGameLevels env g analysis) = Inr v"
  shows "\<exists>p response t.
           gameLevelsPrompt env g analysis = Inr p
           \<and> generateContent env (gameLevelsRequest p) = Inr response
           \<and> response_text response = Some t
           \<and> JSON_parse env (trim t) = Some v"
proof -
  have key: "truthy (API_KEY env)"
    using assms by (auto simp: generateGameLevels_def split: if_splits)
  then have c: "fst (catchHandleApiError (generateGameLevels_try env g analysis)) = Inr v"
    using assms by (simp add: generateGameLevels_def)
  then have t: "fst (generateGameLevels_try env g analysis) = Inr v"
    by (cases "generateGameLevels_try env g analysis")
       (auto simp: catchHandleApiError_def split: sum.splits)
  obtain p where p: "gameLevelsPrompt env g analysis = Inr p"
    using t by (cases "gameLevelsPrompt env g analysis")
      (auto simp: generateGameLevels_try_def)
  obtain response where r: "generateContent env (gameLevelsRequest p) = Inr response"
    using t p by (cases "generateContent env (gameLevelsRequest p)")
      (auto simp: generateGameLevels_try_def)
  have b: "blockedReason response = None"
    using t p r by (cases "blockedReason response")
      (auto simp: generateGameLevels_try_def throwApi_def)
  obtain body where x: "response_text response = Some body"
    using t p r b by (cases "response_text response")
      (auto simp: generateGameLevels_try_def throwApi_def)
  have n: "body \<noteq> []"
    using t p r b x by (auto simp: generateGameLevels_try_def throwApi_def)
  have "JSON_parse env (trim body) = Some v"
    using assms generateGameLevels_parse [OF key p r b x n]
    by (cases "JSON_parse env (trim body)") auto
  with p r x show ?thesis by blast
qed

lemma parse_empty_array: "parseJson (trim (js ''[]'')) = Some (JArray [])"
  by code_simp

lemma empty_levels_returned:
  "fst (generateGameLevels
          (browser (Some (js ''key''))
             (answers (reply (Some ''STOP'') (Some sampleAnalysisText))
                      (reply (Some ''STOP'') (Some ''[]''))))
          (js ''Cozy Farming Sim'') sampleAnalysis) = Inr (JArray [])"
proof -
  let ?env = "browser (Some (js ''key''))
     (answers (reply (Some ''STOP'') (Some sampleAnalysisText))
              (reply (Some ''STOP'') (Some ''[]'')))"
  let ?r = "\<lparr>candidates = Some [\<lparr>finishReason = Some (js ''STOP'')\<rparr>],
            response_text = Some (js ''[]'')\<rparr>"
  have "generateContent ?env (gameLevelsRequest p) = Inr ?r" for p by (simp add: reply_def)
  from generateGameLevels_parse [OF _ gameLevelsPrompt_sample this, of "js ''[]''"]
  show ?thesis by (simp add: parse_empty_array)
qed

lemma sample_analysis_returned:
  "fst (generateMarketAnalysis
          (browser (Some (js ''key''))
             (answers (reply (Some ''STOP'') (Some sampleAnalysisText)) pro))
          (js ''Cozy Farming Sim'')) = Inr sampleAnalysis"
proof -
  let ?env = "browser (Some (js ''key''))
     (answers (reply (Some ''STOP'') (Some sampleAnalysisText)) pro)"
  let ?r = "\<lparr>candidates = Some [\<lparr>finishReason = Some (js ''STOP'')\<rparr>],
            response_text = Some (js sampleAnalysisText)\<rparr>"
  have n: "js sampleAnalysisText \<noteq> []" by (simp add: sampleAnalysisText_def)
  have "generateContent ?env (marketAnalysisRequest (js ''Cozy Farming Sim'')) = Inr ?r"
    by (simp add: reply_def)
  from generateMarketAnalysis_parse [OF _ this _ _ n]
  show ?thesis by (simp add: parse_sampleAnalysis)
qed

section \<open>Facts about the handlers\<close>

lemma parsesOf_simps [simp]:
  "parsesOf [] = []"
  "parsesOf (GenerateContent r # evs) = parsesOf evs"
  "parsesOf (JSONParse s # evs) = s # parsesOf evs"
  "parsesOf (ConsoleError # evs) = parsesOf evs"
  "parsesOf (SetAppState a # evs) = parsesOf evs"
  by (simp_all add: parsesOf_def)

lemma requestsOf_simps [simp]:
  "requestsOf [] = []"
  "requestsOf (GenerateContent r # evs) = r # requestsOf evs"
  "requestsOf (JSONParse s # evs) = requestsOf evs"
  "requestsOf (ConsoleError # evs) = requestsOf evs"
  "requestsOf (SetAppState a # evs) = requestsOf evs"
  by (simp_all add: requestsOf_def)

lemma appStatesOf_simps [simp]:
  "appStatesOf [] = []"
  "appStatesOf (GenerateContent r # evs) = appStatesOf evs"
  "appStatesOf (JSONParse s # evs) = appStatesOf evs"
  "appStatesOf (ConsoleError # evs) = appStatesOf evs"
  "appStatesOf (SetAppState a # evs) = a # appStatesOf evs"
  by (simp_all add: appStatesOf_def)

lemma analyzeCatch_result:
  "fst (analyzeCatch (ThrownApiServiceError e) st) =
     st\<lparr>error := Some (fst (analyzeErrorMessage (ThrownApiServiceError e))),
        isApiKeySelected := (if errType e = INVALID_KEY then False else isApiKeySelected st),
        appState := ANALYSIS_INPUT\<rparr>"
  by (cases "errType e") (simp_all add: analyzeCatch_def analyzeErrorMessage_def)

lemma prototypeCatch_result:
  "fst (prototypeCatch (ThrownApiServiceError e) st) =
     st\<lparr>error := Some (fst (prototypeErrorMessage (ThrownApiServiceError e))),
        isApiKeySelected := (if errType e = INVALID_KEY then False else isApiKeySelected st),
        appState := (if errType e = INVALID_KEY then ANALYSIS_INPUT else IDEA_COMPLETE)\<rparr>"
  by (cases "errType e") (simp_all add: prototypeCatch_def prototypeErrorMessage_def)

lemma analyzeErrorMessage_text:
  "fst (analyzeErrorMessage (ThrownApiServiceError e)) =
     js (case errType e of
           INVALID_KEY \<Rightarrow>
             ''Your API Key is invalid or missing permissions. '' @
             ''Please select a valid API key to continue.''
         | RATE_LIMIT \<Rightarrow>
             ''You've exceeded the API rate limit. '' @
             ''Please wait a moment and try again.''
         | NETWORK \<Rightarrow>
             ''A network error occurred. '' @
             ''Please check your connection and try again.''
         | BAD_RESPONSE \<Rightarrow>
             ''The AI returned a response that couldn't be understood. '' @
             ''Please try again.''
         | RESPONSE_BLOCKED \<Rightarrow>
             ''The AI's response was blocked due to content safety policies. '' @
             ''Please try modifying your prompt.''
         | UNKNOWN \<Rightarrow>
             ''An unknown error occurred while contacting the AI service. '' @
             ''Please try again.'')"
  by (cases "errType e") (simp_all add: analyzeErrorMessage_def)

lemma prototypeErrorMessage_text:
  "fst (prototypeErrorMessage (ThrownApiServiceError e)) =
     js (case errType e of
           INVALID_KEY \<Rightarrow>
             ''Your API Key is invalid or missing permissions. '' @
             ''Please select a valid API key to continue.''
         | RATE_LIMIT \<Rightarrow>
             ''You've exceeded the API rate limit. '' @
             ''Please wait a moment and try again.''
         | NETWORK \<Rightarrow>
             ''A network error occurred. '' @
             ''Please check your connection and try again.''
         | BAD_RESPONSE \<Rightarrow>
             ''An unknown error occurred while generating the prototype. '' @
             ''Please try again.''
         | RESPONSE_BLOCKED \<Rightarrow>
             ''The AI's response for the prototype was blocked due to content '' @
             ''safety policies. This can sometimes happen with code generation. '' @
             ''Please try again.''
         | UNKNOWN \<Rightarrow>
             ''An unknown error occurred while generating the prototype. '' @
             ''Please try again.'')"
  by (cases "errType e") (simp_all add: prototypeErrorMessage_def)

lemma analyzeErrorMessage_nonempty:
  "fst (analyzeErrorMessage (ThrownApiServiceError e)) \<noteq> []"
  by (cases "errType e") (simp_all add: analyzeErrorMessage_def)

lemma prototypeErrorMessage_nonempty:
  "fst (prototypeErrorMessage (ThrownApiServiceError e)) \<noteq> []"
  by (cases "errType e") (simp_all add: prototypeErrorMessage_def)

lemma handleAnalyzeGenre_analysis_fails:
  assumes "trim (genre st) \<noteq> []"
      and "fst (generateMarketAnalysis env (genre st)) = Inl e"
  shows "fst (handleAnalyzeGenre env st) =
           fst (analyzeCatch (ThrownApiServiceError e)
                  (st\<lparr>error := None, appState := ANALYSIS_LOADING\<rparr>))"
  using assms
  by (cases "generateMarketAnalysis env (genre st)")
     (simp add: handleAnalyzeGenre_def split: prod.splits)

lemma handleAnalyzeGenre_levels_fail:
  assumes "trim (genre st) \<noteq> []"
      and "fst (generateMarketAnalysis env (genre st)) = Inr analysis"
      and "fst (generateGameLevels env (genre st) analysis) = Inl e"
  shows "fst (handleAnalyzeGenre env st) =
           fst (analyzeCatch (ThrownApiServiceError e)
                  (st\<lparr>error := None, appState := ANALYSIS_LOADING,
                      marketAnalysis := Some analysis, appState := IDEA_LOADING\<rparr>))"
  using assms
  by (cases "generateMarketAnalysis env (genre st)";
      cases "generateGameLevels env (genre st) analysis")
     (simp add: handleAnalyzeGenre_def Let_def split: prod.splits)

lemma handleAnalyzeGenre_succeeds:
  assumes "trim (genre st) \<noteq> []"
      and "fst (generateMarketAnalysis env (genre st)) = Inr analysis"
      and "fst (generateGameLevels env (genre st) analysis) = Inr ideas"
  shows "fst (handleAnalyzeGenre env st) =
           st\<lparr>error := None, marketAnalysis := Some analysis, gameIdeas := Some ideas,
              appState := IDEA_COMPLETE\<rparr>"
  using assms
  by (cases "generateMarketAnalysis env (genre st)";
      cases "generateGameLevels env (genre st) analysis")
     (simp add: handleAnalyzeGenre_def Let_def split: prod.splits)

lemma handleGeneratePrototype_fails:
  assumes "fst (generatePrototype env idea) = Inl e"
  shows "fst (handleGeneratePrototype env idea st) =
           fst (prototypeCatch (ThrownApiServiceError e)
                  (st\<lparr>appState := PROTOTYPE_LOADING, error := None\<rparr>))"
  using assms
  by (cases "generatePrototype env idea")
     (simp add: handleGeneratePrototype_def Let_def split: prod.splits)

lemma genre_initialApp [simp]: "genre initialApp = js ''Cozy Farming Sim''"
  by (simp add: initialApp_def)

lemma handleAnalyzeGenre_gameIdeas:
  "gameIdeas (fst (handleAnalyzeGenre env st)) = gameIdeas st
   \<or> (\<exists>analysis ideas.
         fst (generateGameLevels env (genre st) analysis) = Inr ideas
         \<and> gameIdeas (fst (handleAnalyzeGenre env st)) = Some ideas)"
proof (cases "trim (genre st) = []")
  case True
  then show ?thesis by (simp add: handleAnalyzeGenre_def)
next
  case ne: False
  show ?thesis
  proof (cases "fst (generateMarketAnalysis env (genre st))")
    case (Inl e)
    then show ?thesis
      by (simp add: handleAnalyzeGenre_analysis_fails [OF ne] analyzeCatch_result)
  next
    case (Inr analysis)
    show ?thesis
    proof (cases "fst (generateGameLevels env (genre st) analysis)")
      case (Inl e)
      then show ?thesis
        by (simp add: handleAnalyzeGenre_levels_fail [OF ne Inr] analyzeCatch_result)
    next
      case ok: (Inr ideas)
      then have "gameIdeas (fst (handleAnalyzeGenre env st)) = Some ideas"
        by (simp add: handleAnalyzeGenre_succeeds [OF ne Inr])
      with ok show ?thesis by blast
    qed
  qed
qed

section \<open>The claims of the specification\<close>

text \<open>
  C1, as the code has it. The claim as stated fails in its html part: what is wrapped is
  the trimmed text, not the response text as it came. For a response whose trimmed text
  is not empty: when the trimmed text is the marker "PROTOTYPE_UNFEASIBLE:" followed by
  some rest, the result is the text variant holding that rest, trimmed; when the trimmed
  text does not start with the marker, the result is the html variant holding the fixed
  style preamble, then the trimmed text, then the closing line of the template. Either
  way a result is returned, not an error.
\<close>

theorem prototype_wraps_trimmed_text:
  assumes "truthy (API_KEY env)"
      and "prototypePrompt env level = Inr p"
      and "generateContent env (prototypeRequest p) = Inr response"
      and "response_text response = Some t"
      and "trim t \<noteq> []"
  shows "(\<forall>rest. trim t = js ''PROTOTYPE_UNFEASIBLE:'' @ rest \<longrightarrow>
            fst (generatePrototype env level) =
              Inr \<lparr>resultType = type_text, content = trim rest\<rparr>)
       \<and> (\<not> startsWith (trim t) (js ''PROTOTYPE_UNFEASIBLE:'') \<longrightarrow>
            fst (generatePrototype env level) =
              Inr \<lparr>resultType = type_html,
                   content =
                     js (''\<newline>'' @
                         ''                <style>\<newline>'' @
                         ''                    body, html { \<newline>'' @
                         ''                        margin: 0; \<newline>'' @
                         ''                        padding: 0; \<newline>'' @
                         ''                        overflow: hidden; \<newline>'' @
                         ''                        background-color: #EAF2CE;\<newline>'' @
                         ''                    }\<newline>'' @
                         ''                    canvas { \<newline>'' @
                         ''                        display: block; \<newline>'' @
                         ''                    }\<newline>'' @
                         ''                </style>\<newline>'' @
                         ''                '')
                     @ trim t
                     @ js (''\<newline>'' @ ''            '')\<rparr>)"
proof (intro conjI allI impI)
  fix rest
  assume eq: "trim t = js ''PROTOTYPE_UNFEASIBLE:'' @ rest"
  then have s: "startsWith (trim t) (js ''PROTOTYPE_UNFEASIBLE:'')"
    unfolding startsWith_iff by blast
  have "replace (trim t) (js ''PROTOTYPE_UNFEASIBLE:'') [] = rest"
    using replace_prefix [OF s] eq by simp
  with s show "fst (generatePrototype env level) =
      Inr \<lparr>resultType = type_text, content = trim rest\<rparr>"
    using generatePrototype_text [OF assms] by simp
next
  assume "\<not> startsWith (trim t) (js ''PROTOTYPE_UNFEASIBLE:'')"
  then have "fst (generatePrototype env level) =
      Inr \<lparr>resultType = type_html, content = stylePreamble @ trim t @ styleEnd\<rparr>"
    using generatePrototype_text [OF assms] by simp
  then show "fst (generatePrototype env level) =
      Inr \<lparr>resultType = type_html,
           content =
             js (''\<newline>'' @
                 ''                <style>\<newline>'' @
                 ''                    body, html { \<newline>'' @
                 ''                        margin: 0; \<newline>'' @
                 ''                        padding: 0; \<newline>'' @
                 ''                        overflow: hidden; \<newline>'' @
                 ''                        background-color: #EAF2CE;\<newline>'' @
                 ''                    }\<newline>'' @
                 ''                    canvas { \<newline>'' @
                 ''                        display: block; \<newline>'' @
                 ''                    }\<newline>'' @
                 ''                </style>\<newline>'' @
                 ''                '')
             @ trim t
             @ js (''\<newline>'' @ ''            '')\<rparr>"
    unfolding stylePreamble_def styleEnd_def .
qed

theorem prototype_wraps_trimmed_text_witness:
  "fst (generatePrototype
          (browser (Some (js ''key''))
             (answers (reply None None)
                (reply (Some ''STOP'') (Some ''  PROTOTYPE_UNFEASIBLE: goal unreachable\<newline>''))))
          sampleLevel) =
     Inr \<lparr>resultType = type_text, content = js ''goal unreachable''\<rparr>
   \<and> fst (generatePrototype
          (browser (Some (js ''key''))
             (answers (reply None None)
                (reply (Some ''STOP'') (Some ''\<newline><canvas id=\"gameCanvas\"></canvas>\<newline>''))))
          sampleLevel) =
     Inr \<lparr>resultType = type_html,
          content =
            js (''\<newline>'' @
                ''                <style>\<newline>'' @
                ''                    body, html { \<newline>'' @
                ''                        margin: 0; \<newline>'' @
                ''                        padding: 0; \<newline>'' @
                ''                        overflow: hidden; \<newline>'' @
                ''                        background-color: #EAF2CE;\<newline>'' @
                ''                    }\<newline>'' @
                ''                    canvas { \<newline>'' @
                ''                        display: block; \<newline>'' @
                ''                    }\<newline>'' @
                ''                </style>\<newline>'' @
                ''                '')
            @ js ''<canvas id=\"gameCanvas\"></canvas>''
            @ js (''\<newline>'' @ ''            '')\<rparr>"
proof -
  let ?t1 = "''  PROTOTYPE_UNFEASIBLE: goal unreachable\<newline>''"
  let ?t2 = "''\<newline><canvas id=\"gameCanvas\"></canvas>\<newline>''"
  let ?e1 = "browser (Some (js ''key''))
     (answers (reply None None) (reply (Some ''STOP'') (Some ?t1)))"
  let ?e2 = "browser (Some (js ''key''))
     (answers (reply None None) (reply (Some ''STOP'') (Some ?t2)))"
  let ?r1 = "\<lparr>candidates = Some [\<lparr>finishReason = Some (js ''STOP'')\<rparr>],
             response_text = Some (js ?t1)\<rparr>"
  let ?r2 = "\<lparr>candidates = Some [\<lparr>finishReason = Some (js ''STOP'')\<rparr>],
             response_text = Some (js ?t2)\<rparr>"
  have k: "truthy (API_KEY ?e1)" "truthy (API_KEY ?e2)" by simp_all
  have c1: "generateContent ?e1 (prototypeRequest q) = Inr ?r1" for q
    by (simp add: reply_def)
  have c2: "generateContent ?e2 (prototypeRequest q) = Inr ?r2" for q
    by (simp add: reply_def)
  have t: "response_text ?r1 = Some (js ?t1)" "response_text ?r2 = Some (js ?t2)"
    by simp_all
  have n: "trim (js ?t1) \<noteq> []" "trim (js ?t2) \<noteq> []"
    by (simp_all add: trim_unfeasible trim_canvas)
  have a: "fst (generatePrototype ?e1 sampleLevel) =
      Inr \<lparr>resultType = type_text, content = js ''goal unreachable''\<rparr>"
    using prototype_wraps_trimmed_text [OF k(1) prototypePrompt_sample c1 t(1) n(1)]
      trim_unfeasible trim_reason
    by simp
  have b: "\<not> startsWith (trim (js ?t2)) (js ''PROTOTYPE_UNFEASIBLE:'')"
    by (simp only: trim_canvas canvas_not_marker not_False_eq_True)
  from prototype_wraps_trimmed_text [OF k(2) prototypePrompt_sample c2 t(2) n(2)] b
  have "fst (generatePrototype ?e2 sampleLevel) =
      Inr \<lparr>resultType = type_html,
           content =
             js (''\<newline>'' @
                 ''                <style>\<newline>'' @
                 ''                    body, html { \<newline>'' @
                 ''                        margin: 0; \<newline>'' @
                 ''                        padding: 0; \<newline>'' @
                 ''                        overflow: hidden; \<newline>'' @
                 ''                        background-color: #EAF2CE;\<newline>'' @
                 ''                    }\<newline>'' @
                 ''                    canvas { \<newline>'' @
                 ''                        display: block; \<newline>'' @
                 ''                    }\<newline>'' @
                 ''                </style>\<newline>'' @
                 ''                '')
             @ trim (js ?t2)
             @ js (''\<newline>'' @ ''            '')\<rparr>"
    by blast
  then show ?thesis using a by (simp only: trim_canvas simp_thms)
qed

text \<open>
  C1 as stated fails: for the response text made of a line feed, a canvas element and a
  line feed, generatePrototype returns the html variant holding the canvas element
  without the line feeds around it; the content is not the response text between the two
  parts of the template, and the response text occurs nowhere in it.
\<close>

theorem raw_text_wrapped_counterexample:
  "fst (generatePrototype
          (browser (Some (js ''key''))
             (answers (reply None None)
                (reply (Some ''STOP'') (Some ''\<newline><canvas id=\"gameCanvas\"></canvas>\<newline>''))))
          sampleLevel) =
     Inr \<lparr>resultType = type_html,
          content = stylePreamble @ js ''<canvas id=\"gameCanvas\"></canvas>'' @ styleEnd\<rparr>
   \<and> fst (generatePrototype
          (browser (Some (js ''key''))
             (answers (reply None None)
                (reply (Some ''STOP'') (Some ''\<newline><canvas id=\"gameCanvas\"></canvas>\<newline>''))))
          sampleLevel) \<noteq>
     Inr \<lparr>resultType = type_html,
          content = stylePreamble
            @ js ''\<newline><canvas id=\"gameCanvas\"></canvas>\<newline>'' @ styleEnd\<rparr>
   \<and> \<not> includesText
         (stylePreamble @ js ''<canvas id=\"gameCanvas\"></canvas>'' @ styleEnd)
         (js ''\<newline><canvas id=\"gameCanvas\"></canvas>\<newline>'')"
proof -
  let ?t = "''\<newline><canvas id=\"gameCanvas\"></canvas>\<newline>''"
  let ?env = "browser (Some (js ''key''))
     (answers (reply None None) (reply (Some ''STOP'') (Some ?t)))"
  let ?r = "\<lparr>candidates = Some [\<lparr>finishReason = Some (js ''STOP'')\<rparr>],
            response_text = Some (js ?t)\<rparr>"
  have k: "truthy (API_KEY ?env)" by simp
  have c: "generateContent ?env (prototypeRequest q) = Inr ?r" for q
    by (simp add: reply_def)
  have t: "response_text ?r = Some (js ?t)" by simp
  have n: "trim (js ?t) \<noteq> []" by (simp add: trim_canvas)
  have r: "fst (generatePrototype ?env sampleLevel) =
      Inr \<lparr>resultType = type_html,
           content = stylePreamble @ js ''<canvas id=\"gameCanvas\"></canvas>'' @ styleEnd\<rparr>"
    using generatePrototype_text [OF k prototypePrompt_sample c t n] canvas_not_marker
    by (simp add: trim_canvas)
  have d: "js ''<canvas id=\"gameCanvas\"></canvas>'' \<noteq> js ?t" by simp
  show ?thesis using r d raw_canvas_not_included by simp
qed

text \<open>
  C2. The shared error classifier: a value that is already an ApiServiceError is returned
  as it is; otherwise the message text decides, in this order: "API key not valid" or
  "Requested entity was not found" give INVALID_KEY, "Rate limit exceeded" gives
  RATE_LIMIT, a TypeError whose message contains "fetch" or "network" gives NETWORK,
  and everything else gives UNKNOWN. "Contains" is stated as: the message is some text,
  then the phrase, then some text.
\<close>

theorem handleApiError_classifies:
  "fst (handleApiError (ThrownApiServiceError e)) = e
   \<and> errType (fst (handleApiError (ThrownError isType m))) =
     (if (\<exists>pre post. m = pre @ js ''API key not valid'' @ post)
         \<or> (\<exists>pre post. m = pre @ js ''Requested entity was not found'' @ post)
      then INVALID_KEY
      else if (\<exists>pre post. m = pre @ js ''Rate limit exceeded'' @ post) then RATE_LIMIT
      else if isType \<and> ((\<exists>pre post. m = pre @ js ''fetch'' @ post)
                         \<or> (\<exists>pre post. m = pre @ js ''network'' @ post))
      then NETWORK
      else UNKNOWN)
   \<and> errType (fst (handleApiError (ThrownValue m))) =
     (if (\<exists>pre post. m = pre @ js ''API key not valid'' @ post)
         \<or> (\<exists>pre post. m = pre @ js ''Requested entity was not found'' @ post)
      then INVALID_KEY
      else if (\<exists>pre post. m = pre @ js ''Rate limit exceeded'' @ post) then RATE_LIMIT
      else UNKNOWN)"
  unfolding includesText_iff [symmetric]
  by (auto simp: handleApiError_def newApiServiceError_def Let_def)

text \<open>
  C3. In generateMarketAnalysis and in generateGameLevels, a response whose first
  candidate reports a finish reason (a non-empty string, \<open>finishReason\<close> being a string
  enumeration of the SDK) other than "STOP" makes the call fail with RESPONSE_BLOCKED,
  and the message ends with that reason.
\<close>

theorem finish_reason_blocks:
  assumes "truthy (API_KEY env)"
      and "firstFinishReason response = Some reason"
      and "reason \<noteq> []"
      and "reason \<noteq> js ''STOP''"
  shows "(generateContent env (marketAnalysisRequest g) = Inr response \<longrightarrow>
            fst (generateMarketAnalysis env g) =
              Inl \<lparr>errType = RESPONSE_BLOCKED,
                   message = js ''Response was blocked due to: '' @ reason\<rparr>)
       \<and> (\<forall>p. gameLevelsPrompt env g analysis = Inr p
              \<and> generateContent env (gameLevelsRequest p) = Inr response \<longrightarrow>
            fst (generateGameLevels env g analysis) =
              Inl \<lparr>errType = RESPONSE_BLOCKED,
                   message = js ''Response was blocked due to: '' @ reason\<rparr>)
       \<and> includesText (js ''Response was blocked due to: '' @ reason) reason"
proof -
  have b: "blockedReason response = Some reason"
    using assms(2-4) by (rule blockedReason_Some)
  show ?thesis
    using generateMarketAnalysis_blocked [OF assms(1) _ b]
      generateGameLevels_blocked [OF assms(1) _ _ b] blocked_message_includes
    by (auto simp: newApiServiceError_def)
qed

theorem finish_reason_blocks_witness:
  "fst (generateMarketAnalysis
          (browser (Some (js ''key'')) (answers (reply (Some ''SAFETY'') (Some ''{}'')) (reply (Some ''MAX_TOKENS'') (Some ''[]''))))
          (js ''Cozy Farming Sim'')) =
     Inl \<lparr>errType = RESPONSE_BLOCKED, message = js ''Response was blocked due to: SAFETY''\<rparr>
   \<and> fst (generateGameLevels
          (browser (Some (js ''key'')) (answers (reply (Some ''SAFETY'') (Some ''{}'')) (reply (Some ''MAX_TOKENS'') (Some ''[]''))))
          (js ''Cozy Farming Sim'') sampleAnalysis) =
     Inl \<lparr>errType = RESPONSE_BLOCKED, message = js ''Response was blocked due to: MAX_TOKENS''\<rparr>"
proof -
  let ?env = "browser (Some (js ''key''))
     (answers (reply (Some ''SAFETY'') (Some ''{}'')) (reply (Some ''MAX_TOKENS'') (Some ''[]'')))"
  let ?g = "js ''Cozy Farming Sim''"
  let ?r1 = "\<lparr>candidates = Some [\<lparr>finishReason = Some (js ''SAFETY'')\<rparr>],
             response_text = Some (js ''{}'')\<rparr>"
  let ?r2 = "\<lparr>candidates = Some [\<lparr>finishReason = Some (js ''MAX_TOKENS'')\<rparr>],
             response_text = Some (js ''[]'')\<rparr>"
  have k: "truthy (API_KEY ?env)" by (simp add: browser_def)
  have c1: "generateContent ?env (marketAnalysisRequest ?g) = Inr ?r1"
    by (simp add: browser_def answers_def marketAnalysisRequest_def reply_def)
  have c2: "generateContent ?env (gameLevelsRequest p) = Inr ?r2" for p
    by (simp add: browser_def answers_def gameLevelsRequest_def reply_def)
  have f1: "firstFinishReason ?r1 = Some (js ''SAFETY'')"
    and f2: "firstFinishReason ?r2 = Some (js ''MAX_TOKENS'')"
    by (simp_all add: firstFinishReason_def)
  have n: "js ''SAFETY'' \<noteq> []" "js ''SAFETY'' \<noteq> js ''STOP''"
    "js ''MAX_TOKENS'' \<noteq> []" "js ''MAX_TOKENS'' \<noteq> js ''STOP''"
    by simp_all
  have m: "js ''Response was blocked due to: '' @ js ''SAFETY'' = js ''Response was blocked due to: SAFETY''"
    "js ''Response was blocked due to: '' @ js ''MAX_TOKENS'' = js ''Response was blocked due to: MAX_TOKENS''"
    by (simp_all add: js_append [symmetric])
  show ?thesis
    using finish_reason_blocks [OF k f1 n(1,2), of ?g sampleAnalysis]
      finish_reason_blocks [OF k f2 n(3,4), of ?g sampleAnalysis]
      c1 c2 gameLevelsPrompt_sample [of ?env ?g] m
    by auto
qed

text \<open>
  C4. When the credential is absent (\<open>process.env.API_KEY\<close> is undefined or the empty
  string), each of the three operations fails at once with INVALID_KEY, and the run has
  no event at all: no model call is made.
\<close>

theorem missing_key_short_circuits:
  assumes "API_KEY env = None \<or> API_KEY env = Some []"
  shows "generateMarketAnalysis env g =
           (Inl \<lparr>errType = INVALID_KEY, message = js ''API Key is not configured.''\<rparr>, [])
       \<and> generateGameLevels env g analysis =
           (Inl \<lparr>errType = INVALID_KEY, message = js ''API Key is not configured.''\<rparr>, [])
       \<and> generatePrototype env level =
           (Inl \<lparr>errType = INVALID_KEY, message = js ''API Key is not configured.''\<rparr>, [])"
proof -
  from assms have "\<not> truthy (API_KEY env)" by auto
  then show ?thesis
    by (simp add: generateMarketAnalysis_def generateGameLevels_def generatePrototype_def
          newApiServiceError_def)
qed

theorem missing_key_short_circuits_witness:
  "generateMarketAnalysis (browser None (answers (reply (Some ''STOP'') (Some ''[]'')) (reply None None)))
       (js ''Cozy Farming Sim'') =
     (Inl \<lparr>errType = INVALID_KEY, message = js ''API Key is not configured.''\<rparr>, [])
   \<and> generateGameLevels (browser (Some []) (answers (reply (Some ''STOP'') (Some ''[]'')) (reply None None)))
       (js ''Cozy Farming Sim'') JNull =
     (Inl \<lparr>errType = INVALID_KEY, message = js ''API Key is not configured.''\<rparr>, [])
   \<and> generatePrototype (browser None (answers (reply (Some ''STOP'') (Some ''[]'')) (reply None None)))
       (JObject []) =
     (Inl \<lparr>errType = INVALID_KEY, message = js ''API Key is not configured.''\<rparr>, [])"
proof -
  let ?t = "answers (reply (Some ''STOP'') (Some ''[]'')) (reply None None)"
  have a: "API_KEY (browser None ?t) = None \<or> API_KEY (browser None ?t) = Some []"
    by (simp add: browser_def)
  have b: "API_KEY (browser (Some []) ?t) = None \<or> API_KEY (browser (Some []) ?t) = Some []"
    by (simp add: browser_def)
  show ?thesis
    using missing_key_short_circuits [OF a] missing_key_short_circuits [OF b] by blast
qed

text \<open>
  C5. A failure of the analysis step or of the idea step leaves the application in
  ANALYSIS_INPUT with the error message of its kind, a text that is not empty. A failure
  of the prototype step leaves it in IDEA_COMPLETE, or in ANALYSIS_INPUT when the kind is
  INVALID_KEY, with its own message and with the fetched levels as they were. In each
  case the credential-selected flag is cleared when the kind is INVALID_KEY and is left
  as it was otherwise.
\<close>

theorem failure_recovery_with_message:
  "(trim (genre st) \<noteq> [] \<and> fst (generateMarketAnalysis env (genre st)) = Inl e \<longrightarrow>
      appState (fst (handleAnalyzeGenre env st)) = ANALYSIS_INPUT
      \<and> error (fst (handleAnalyzeGenre env st)) =
          Some (js (case errType e of
              INVALID_KEY \<Rightarrow>
                ''Your API Key is invalid or missing permissions. '' @
                ''Please select a valid API key to continue.''
            | RATE_LIMIT \<Rightarrow>
                ''You've exceeded the API rate limit. '' @
                ''Please wait a moment and try again.''
            | NETWORK \<Rightarrow>
                ''A network error occurred. '' @
                ''Please check your connection and try again.''
            | BAD_RESPONSE \<Rightarrow>
                ''The AI returned a response that couldn't be understood. '' @
                ''Please try again.''
            | RESPONSE_BLOCKED \<Rightarrow>
                ''The AI's response was blocked due to content safety policies. '' @
                ''Please try modifying your prompt.''
            | UNKNOWN \<Rightarrow>
                ''An unknown error occurred while contacting the AI service. '' @
                ''Please try again.''))
      \<and> error (fst (handleAnalyzeGenre env st)) \<noteq> None
      \<and> error (fst (handleAnalyzeGenre env st)) \<noteq> Some []
      \<and> isApiKeySelected (fst (handleAnalyzeGenre env st)) =
          (if errType e = INVALID_KEY then False else isApiKeySelected st))
   \<and> (\<forall>analysis. trim (genre st) \<noteq> []
          \<and> fst (generateMarketAnalysis env (genre st)) = Inr analysis
          \<and> fst (generateGameLevels env (genre st) analysis) = Inl e \<longrightarrow>
      appState (fst (handleAnalyzeGenre env st)) = ANALYSIS_INPUT
      \<and> error (fst (handleAnalyzeGenre env st)) =
          Some (js (case errType e of
              INVALID_KEY \<Rightarrow>
                ''Your API Key is invalid or missing permissions. '' @
                ''Please select a valid API key to continue.''
            | RATE_LIMIT \<Rightarrow>
                ''You've exceeded the API rate limit. '' @
                ''Please wait a moment and try again.''
            | NETWORK \<Rightarrow>
                ''A network error occurred. '' @
                ''Please check your connection and try again.''
            | BAD_RESPONSE \<Rightarrow>
                ''The AI returned a response that couldn't be understood. '' @
                ''Please try again.''
            | RESPONSE_BLOCKED \<Rightarrow>
                ''The AI's response was blocked due to content safety policies. '' @
                ''Please try modifying your prompt.''
            | UNKNOWN \<Rightarrow>
                ''An unknown error occurred while contacting the AI service. '' @
                ''Please try again.''))
      \<and> error (fst (handleAnalyzeGenre env st)) \<noteq> None
      \<and> error (fst (handleAnalyzeGenre env st)) \<noteq> Some []
      \<and> isApiKeySelected (fst (handleAnalyzeGenre env st)) =
          (if errType e = INVALID_KEY then False else isApiKeySelected st))
   \<and> (fst (generatePrototype env idea) = Inl e \<longrightarrow>
      appState (fst (handleGeneratePrototype env idea st)) =
          (if errType e = INVALID_KEY then ANALYSIS_INPUT else IDEA_COMPLETE)
      \<and> gameIdeas (fst (handleGeneratePrototype env idea st)) = gameIdeas st
      \<and> error (fst (handleGeneratePrototype env idea st)) =
          Some (js (case errType e of
              INVALID_KEY \<Rightarrow>
                ''Your API Key is invalid or missing permissions. '' @
                ''Please select a valid API key to continue.''
            | RATE_LIMIT \<Rightarrow>
                ''You've exceeded the API rate limit. '' @
                ''Please wait a moment and try again.''
            | NETWORK \<Rightarrow>
                ''A network error occurred. '' @
                ''Please check your connection and try again.''
            | BAD_RESPONSE \<Rightarrow>
                ''An unknown error occurred while generating the prototype. '' @
                ''Please try again.''
            | RESPONSE_BLOCKED \<Rightarrow>
                ''The AI's response for the prototype was blocked due to content '' @
                ''safety policies. This can sometimes happen with code generation. '' @
                ''Please try again.''
            | UNKNOWN \<Rightarrow>
                ''An unknown error occurred while generating the prototype. '' @
                ''Please try again.''))
      \<and> error (fst (handleGeneratePrototype env idea st)) \<noteq> None
      \<and> error (fst (handleGeneratePrototype env idea st)) \<noteq> Some []
      \<and> isApiKeySelected (fst (handleGeneratePrototype env idea st)) =
          (if errType e = INVALID_KEY then False else isApiKeySelected st))"
proof -
  have a: "appState (fst (handleAnalyzeGenre env st)) = ANALYSIS_INPUT
      \<and> error (fst (handleAnalyzeGenre env st)) =
          Some (fst (analyzeErrorMessage (ThrownApiServiceError e)))
      \<and> isApiKeySelected (fst (handleAnalyzeGenre env st)) =
          (if errType e = INVALID_KEY then False else isApiKeySelected st)"
    if "trim (genre st) \<noteq> [] \<and> fst (generateMarketAnalysis env (genre st)) = Inl e"
    using that by (simp add: handleAnalyzeGenre_analysis_fails analyzeCatch_result)
  have b: "appState (fst (handleAnalyzeGenre env st)) = ANALYSIS_INPUT
      \<and> error (fst (handleAnalyzeGenre env st)) =
          Some (fst (analyzeErrorMessage (ThrownApiServiceError e)))
      \<and> isApiKeySelected (fst (handleAnalyzeGenre env st)) =
          (if errType e = INVALID_KEY then False else isApiKeySelected st)"
    if "trim (genre st) \<noteq> []
          \<and> fst (generateMarketAnalysis env (genre st)) = Inr analysis
          \<and> fst (generateGameLevels env (genre st) analysis) = Inl e" for analysis
    using that by (simp add: handleAnalyzeGenre_levels_fail analyzeCatch_result)
  have c: "appState (fst (handleGeneratePrototype env idea st)) =
          (if errType e = INVALID_KEY then ANALYSIS_INPUT else IDEA_COMPLETE)
      \<and> gameIdeas (fst (handleGeneratePrototype env idea st)) = gameIdeas st
      \<and> error (fst (handleGeneratePrototype env idea st)) =
          Some (fst (prototypeErrorMessage (ThrownApiServiceError e)))
      \<and> isApiKeySelected (fst (handleGeneratePrototype env idea st)) =
          (if errType e = INVALID_KEY then False else isApiKeySelected st)"
    if "fst (generatePrototype env idea) = Inl e"
    using that by (simp add: handleGeneratePrototype_fails prototypeCatch_result)
  show ?thesis
    using a b c analyzeErrorMessage_nonempty [of e] prototypeErrorMessage_nonempty [of e]
    unfolding analyzeErrorMessage_text [symmetric] prototypeErrorMessage_text [symmetric]
    by auto
qed

theorem failure_recovery_with_message_witness:
  "appState (fst (handleAnalyzeGenre
       (browser None (answers (reply None None) (reply None None))) initialApp)) = ANALYSIS_INPUT
   \<and> isApiKeySelected (fst (handleAnalyzeGenre
       (browser None (answers (reply None None) (reply None None))) initialApp)) = False
   \<and> error (fst (handleAnalyzeGenre
       (browser None (answers (reply None None) (reply None None))) initialApp)) =
      Some (js (''Your API Key is invalid or missing permissions. '' @
                ''Please select a valid API key to continue.''))
   \<and> appState (fst (handleAnalyzeGenre
       (browser (Some (js ''key''))
          (answers (reply (Some ''STOP'') (Some sampleAnalysisText)) (Inl rateLimitError)))
       initialApp)) = ANALYSIS_INPUT
   \<and> isApiKeySelected (fst (handleAnalyzeGenre
       (browser (Some (js ''key''))
          (answers (reply (Some ''STOP'') (Some sampleAnalysisText)) (Inl rateLimitError)))
       initialApp)) = isApiKeySelected initialApp
   \<and> error (fst (handleAnalyzeGenre
       (browser (Some (js ''key''))
          (answers (reply (Some ''STOP'') (Some sampleAnalysisText)) (Inl rateLimitError)))
       initialApp)) =
      Some (js (''You've exceeded the API rate limit. '' @
                ''Please wait a moment and try again.''))
   \<and> appState (fst (handleGeneratePrototype
       (browser (Some (js ''key'')) (answers (reply None None) (reply (Some ''STOP'') None)))
       sampleLevel
       (initialApp\<lparr>appState := IDEA_COMPLETE, gameIdeas := Some (JArray [sampleLevel])\<rparr>))) =
      IDEA_COMPLETE
   \<and> gameIdeas (fst (handleGeneratePrototype
       (browser (Some (js ''key'')) (answers (reply None None) (reply (Some ''STOP'') None)))
       sampleLevel
       (initialApp\<lparr>appState := IDEA_COMPLETE, gameIdeas := Some (JArray [sampleLevel])\<rparr>))) =
      Some (JArray [sampleLevel])
   \<and> error (fst (handleGeneratePrototype
       (browser (Some (js ''key'')) (answers (reply None None) (reply (Some ''STOP'') None)))
       sampleLevel
       (initialApp\<lparr>appState := IDEA_COMPLETE, gameIdeas := Some (JArray [sampleLevel])\<rparr>))) =
      Some (js (''An unknown error occurred while generating the prototype. '' @
                ''Please try again.''))"
proof -
  let ?g = "js ''Cozy Farming Sim''"
  let ?ea = "browser None (answers (reply None None) (reply None None))"
  let ?eb = "browser (Some (js ''key''))
     (answers (reply (Some ''STOP'') (Some sampleAnalysisText)) (Inl rateLimitError))"
  let ?ec = "browser (Some (js ''key''))
     (answers (reply None None) (reply (Some ''STOP'') None))"
  let ?st = "initialApp\<lparr>appState := IDEA_COMPLETE, gameIdeas := Some (JArray [sampleLevel])\<rparr>"
  let ?key = "\<lparr>errType = INVALID_KEY, message = js ''API Key is not configured.''\<rparr>"
  let ?rate = "\<lparr>errType = RATE_LIMIT, message = js ''You have exceeded the API rate limit.''\<rparr>"
  let ?bad = "\<lparr>errType = BAD_RESPONSE,
               message = js ''Received an empty prototype response from the AI.''\<rparr>"
  let ?rb = "\<lparr>candidates = Some [\<lparr>finishReason = Some (js ''STOP'')\<rparr>],
             response_text = Some (js sampleAnalysisText)\<rparr>"
  let ?rc = "\<lparr>candidates = Some [\<lparr>finishReason = Some (js ''STOP'')\<rparr>],
             response_text = None\<rparr>"
  have ne: "trim (genre initialApp) \<noteq> []" by (simp add: trim_genre)
  have a: "fst (generateMarketAnalysis ?ea (genre initialApp)) = Inl ?key"
    by (simp add: generateMarketAnalysis_def newApiServiceError_def)
  have nb: "js sampleAnalysisText \<noteq> []" by (simp add: sampleAnalysisText_def)
  have "generateContent ?eb (marketAnalysisRequest ?g) = Inr ?rb" by (simp add: reply_def)
  from generateMarketAnalysis_parse [OF _ this _ _ nb]
  have b1: "fst (generateMarketAnalysis ?eb (genre initialApp)) = Inr sampleAnalysis"
    by (simp add: parse_sampleAnalysis)
  have "generateContent ?eb (gameLevelsRequest p) = Inl rateLimitError" for p by simp
  from generateGameLevels_throws [OF _ gameLevelsPrompt_sample this]
  have b2: "fst (generateGameLevels ?eb (genre initialApp) sampleAnalysis) = Inl ?rate"
    by (simp add: classify_rateLimit)
  have "generateContent ?ec (prototypeRequest p) = Inr ?rc" for p by (simp add: reply_def)
  from generatePrototype_empty [OF _ prototypePrompt_sample this]
  have c: "fst (generatePrototype ?ec sampleLevel) = Inl ?bad"
    by (simp add: newApiServiceError_def)
  show ?thesis
    using failure_recovery_with_message [of initialApp ?ea ?key] a
      failure_recovery_with_message [of initialApp ?eb ?rate] b1 b2
      failure_recovery_with_message [of ?st ?ec ?bad sampleLevel] c ne
    by simp
qed

text \<open>
  C6, as the code has it. The claim as stated fails: the value parsed from the response
  is returned and stored unchecked. What holds: a successful call of generateGameLevels
  returns the value that \<open>JSON.parse\<close> gives for the trimmed response text, and
  handleAnalyzeGenre either leaves the levels of the state as they were or sets them to
  a value that generateGameLevels returned.
\<close>

theorem game_levels_are_the_parsed_text:
  "(fst (generateGameLevels env g analysis) = Inr v \<longrightarrow>
      (\<exists>p response t.
         gameLevelsPrompt env g analysis = Inr p
         \<and> generateContent env (gameLevelsRequest p) = Inr response
         \<and> response_text response = Some t
         \<and> JSON_parse env (trim t) = Some v))
   \<and> (\<forall>p response t.
         truthy (API_KEY env)
         \<and> gameLevelsPrompt env g analysis = Inr p
         \<and> generateContent env (gameLevelsRequest p) = Inr response
         \<and> blockedReason response = None
         \<and> response_text response = Some t \<and> t \<noteq> []
         \<and> JSON_parse env (trim t) = Some v \<longrightarrow>
      fst (generateGameLevels env g analysis) = Inr v)
   \<and> (gameIdeas (fst (handleAnalyzeGenre env st)) = gameIdeas st
      \<or> (\<exists>analysis ideas.
            fst (generateGameLevels env (genre st) analysis) = Inr ideas
            \<and> gameIdeas (fst (handleAnalyzeGenre env st)) = Some ideas))"
proof (intro conjI allI impI)
  assume "fst (generateGameLevels env g analysis) = Inr v"
  then show "\<exists>p response t.
         gameLevelsPrompt env g analysis = Inr p
         \<and> generateContent env (gameLevelsRequest p) = Inr response
         \<and> response_text response = Some t
         \<and> JSON_parse env (trim t) = Some v"
    by (rule generateGameLevels_success)
next
  fix p response t
  assume "truthy (API_KEY env)
         \<and> gameLevelsPrompt env g analysis = Inr p
         \<and> generateContent env (gameLevelsRequest p) = Inr response
         \<and> blockedReason response = None
         \<and> response_text response = Some t \<and> t \<noteq> []
         \<and> JSON_parse env (trim t) = Some v"
  then show "fst (generateGameLevels env g analysis) = Inr v"
    using generateGameLevels_parse [of env g analysis p response t] by simp
next
  show "gameIdeas (fst (handleAnalyzeGenre env st)) = gameIdeas st
      \<or> (\<exists>analysis ideas.
            fst (generateGameLevels env (genre st) analysis) = Inr ideas
            \<and> gameIdeas (fst (handleAnalyzeGenre env st)) = Some ideas)"
    by (rule handleAnalyzeGenre_gameIdeas)
qed

theorem game_levels_are_the_parsed_text_witness:
  "fst (generateGameLevels
          (browser (Some (js ''key''))
             (answers (reply (Some ''STOP'') (Some sampleAnalysisText))
                      (reply (Some ''STOP'') (Some ''[]''))))
          (js ''Cozy Farming Sim'') sampleAnalysis) = Inr (JArray [])
   \<and> (\<exists>p response t.
     gameLevelsPrompt
       (browser (Some (js ''key''))
          (answers (reply (Some ''STOP'') (Some sampleAnalysisText))
                   (reply (Some ''STOP'') (Some ''[]''))))
       (js ''Cozy Farming Sim'') sampleAnalysis = Inr p
     \<and> generateContent
       (browser (Some (js ''key''))
          (answers (reply (Some ''STOP'') (Some sampleAnalysisText))
                   (reply (Some ''STOP'') (Some ''[]''))))
       (gameLevelsRequest p) = Inr response
     \<and> response_text response = Some t
     \<and> parseJson (trim t) = Some (JArray []))"
proof -
  let ?env = "browser (Some (js ''key''))
     (answers (reply (Some ''STOP'') (Some sampleAnalysisText))
              (reply (Some ''STOP'') (Some ''[]'')))"
  let ?g = "js ''Cozy Farming Sim''"
  let ?r = "\<lparr>candidates = Some [\<lparr>finishReason = Some (js ''STOP'')\<rparr>],
            response_text = Some (js ''[]'')\<rparr>"
  note inst = game_levels_are_the_parsed_text [of ?env ?g sampleAnalysis "JArray []"]
  have h: "truthy (API_KEY ?env)
      \<and> gameLevelsPrompt ?env ?g sampleAnalysis =
          Inr (GameLevelsPrompt ?g [JString (js ''cozy'')] [JString (js ''farming'')])
      \<and> generateContent ?env
            (gameLevelsRequest
               (GameLevelsPrompt ?g [JString (js ''cozy'')] [JString (js ''farming'')])) =
          Inr ?r
      \<and> blockedReason ?r = None
      \<and> response_text ?r = Some (js ''[]'') \<and> js ''[]'' \<noteq> []
      \<and> JSON_parse ?env (trim (js ''[]'')) = Some (JArray [])"
    by (simp add: gameLevelsPrompt_sample reply_def parse_empty_array)
  from inst h have r: "fst (generateGameLevels ?env ?g sampleAnalysis) = Inr (JArray [])"
    by blast
  with inst show ?thesis by simp
qed

text \<open>
  C6 as stated fails: when the model answers the level request with the JSON text "[]",
  generateGameLevels succeeds and returns an array of no levels, and handleAnalyzeGenre
  stores it as the levels of the state.
\<close>

theorem two_levels_counterexample:
  "fst (generateGameLevels
          (browser (Some (js ''key''))
             (answers (reply (Some ''STOP'') (Some sampleAnalysisText))
                      (reply (Some ''STOP'') (Some ''[]''))))
          (js ''Cozy Farming Sim'') sampleAnalysis) = Inr (JArray [])
   \<and> \<not> isTwoGameLevels (JArray [])
   \<and> gameIdeas (fst (handleAnalyzeGenre
          (browser (Some (js ''key''))
             (answers (reply (Some ''STOP'') (Some sampleAnalysisText))
                      (reply (Some ''STOP'') (Some ''[]''))))
          initialApp)) = Some (JArray [])"
proof -
  have ne: "trim (genre initialApp) \<noteq> []" by (simp add: trim_genre)
  show ?thesis
    using handleAnalyzeGenre_succeeds [OF ne, of _ sampleAnalysis "JArray []"]
      sample_analysis_returned empty_levels_returned
    by (simp add: isTwoGameLevels_def)
qed

text \<open>
  C7, as the code has it. The claim as stated fails for the two schema-constrained
  operations: with a finish reason other than "STOP" an empty text gives
  RESPONSE_BLOCKED. When no such reason is reported (always, for generatePrototype, which
  has no such check), an empty or missing response text makes the operation fail with
  BAD_RESPONSE, and the run has no JSON parse.
\<close>

theorem empty_text_is_bad_response:
  assumes "truthy (API_KEY env)"
      and "\<not> truthy (response_text response)"
  shows "(blockedReason response = None
          \<and> generateContent env (marketAnalysisRequest g) = Inr response \<longrightarrow>
            fst (generateMarketAnalysis env g) =
              Inl \<lparr>errType = BAD_RESPONSE,
                   message = js ''Received an empty response from the AI.''\<rparr>
            \<and> parsesOf (snd (generateMarketAnalysis env g)) = [])
       \<and> (\<forall>p. blockedReason response = None
              \<and> gameLevelsPrompt env g analysis = Inr p
              \<and> generateContent env (gameLevelsRequest p) = Inr response \<longrightarrow>
            fst (generateGameLevels env g analysis) =
              Inl \<lparr>errType = BAD_RESPONSE,
                   message = js ''Received an empty response from the AI.''\<rparr>
            \<and> parsesOf (snd (generateGameLevels env g analysis)) = [])
       \<and> (\<forall>p. prototypePrompt env level = Inr p
              \<and> generateContent env (prototypeRequest p) = Inr response \<longrightarrow>
            fst (generatePrototype env level) =
              Inl \<lparr>errType = BAD_RESPONSE,
                   message = js ''Received an empty prototype response from the AI.''\<rparr>
            \<and> parsesOf (snd (generatePrototype env level)) = [])"
  using generateMarketAnalysis_empty [OF assms(1) _ _ assms(2)]
    generateGameLevels_empty [OF assms(1) _ _ _ assms(2)]
    generatePrototype_empty [OF assms(1) _ _ assms(2)]
  by (auto simp: newApiServiceError_def)

theorem empty_text_is_bad_response_witness:
  "fst (generateMarketAnalysis
          (browser (Some (js ''key'')) (answers (reply (Some ''STOP'') None) (reply None (Some ''''))))
          (js ''Cozy Farming Sim'')) =
     Inl \<lparr>errType = BAD_RESPONSE, message = js ''Received an empty response from the AI.''\<rparr>
   \<and> fst (generateGameLevels
          (browser (Some (js ''key'')) (answers (reply (Some ''STOP'') None) (reply None (Some ''''))))
          (js ''Cozy Farming Sim'') sampleAnalysis) =
     Inl \<lparr>errType = BAD_RESPONSE, message = js ''Received an empty response from the AI.''\<rparr>
   \<and> fst (generatePrototype
          (browser (Some (js ''key'')) (answers (reply (Some ''STOP'') None) (reply (Some ''SAFETY'') (Some ''''))))
          sampleLevel) =
     Inl \<lparr>errType = BAD_RESPONSE,
          message = js ''Received an empty prototype response from the AI.''\<rparr>"
proof -
  let ?e1 = "browser (Some (js ''key''))
     (answers (reply (Some ''STOP'') None) (reply None (Some '''')))"
  let ?e2 = "browser (Some (js ''key''))
     (answers (reply (Some ''STOP'') None) (reply (Some ''SAFETY'') (Some '''')))"
  let ?g = "js ''Cozy Farming Sim''"
  let ?r1 = "\<lparr>candidates = Some [\<lparr>finishReason = Some (js ''STOP'')\<rparr>],
             response_text = None\<rparr>"
  let ?r2 = "\<lparr>candidates = Some [\<lparr>finishReason = None\<rparr>],
             response_text = Some []\<rparr>"
  let ?r3 = "\<lparr>candidates = Some [\<lparr>finishReason = Some (js ''SAFETY'')\<rparr>],
             response_text = Some []\<rparr>"
  have k: "truthy (API_KEY ?e1)" "truthy (API_KEY ?e2)" by simp_all
  have t: "\<not> truthy (response_text ?r1)" "\<not> truthy (response_text ?r2)"
    "\<not> truthy (response_text ?r3)" by simp_all
  have b: "blockedReason ?r1 = None" "blockedReason ?r2 = None"
    by (simp_all add: blockedReason_def)
  have c1: "generateContent ?e1 (marketAnalysisRequest ?g) = Inr ?r1"
    by (simp add: reply_def)
  have c2: "generateContent ?e1 (gameLevelsRequest p) = Inr ?r2" for p
    by (simp add: reply_def js_def)
  have c3: "generateContent ?e2 (prototypeRequest p) = Inr ?r3" for p
    by (simp add: reply_def js_def)
  show ?thesis
    using empty_text_is_bad_response [OF k(1) t(1), of ?g sampleAnalysis sampleLevel]
      empty_text_is_bad_response [OF k(1) t(2), of ?g sampleAnalysis sampleLevel]
      empty_text_is_bad_response [OF k(2) t(3), of ?g sampleAnalysis sampleLevel]
      b c1 c2 c3 gameLevelsPrompt_sample [of ?e1 ?g] prototypePrompt_sample [of ?e2]
    by auto
qed

text \<open>
  C7 as stated fails: generateMarketAnalysis, with a response whose finish reason is
  "MAX_TOKENS" and whose text is empty, fails with RESPONSE_BLOCKED and not with
  BAD_RESPONSE.
\<close>

theorem empty_text_counterexample:
  "fst (generateMarketAnalysis
          (browser (Some (js ''key'')) (answers (reply (Some ''MAX_TOKENS'') (Some '''')) (reply None None)))
          (js ''Cozy Farming Sim'')) =
     Inl \<lparr>errType = RESPONSE_BLOCKED,
          message = js ''Response was blocked due to: MAX_TOKENS''\<rparr>
   \<and> fst (generateMarketAnalysis
          (browser (Some (js ''key'')) (answers (reply (Some ''MAX_TOKENS'') (Some '''')) (reply None None)))
          (js ''Cozy Farming Sim'')) \<noteq>
     Inl \<lparr>errType = BAD_RESPONSE, message = js ''Received an empty response from the AI.''\<rparr>"
proof -
  let ?env = "browser (Some (js ''key''))
     (answers (reply (Some ''MAX_TOKENS'') (Some '''')) (reply None None))"
  let ?r = "\<lparr>candidates = Some [\<lparr>finishReason = Some (js ''MAX_TOKENS'')\<rparr>],
            response_text = Some []\<rparr>"
  have "generateContent ?env (marketAnalysisRequest (js ''Cozy Farming Sim'')) = Inr ?r"
    by (simp add: reply_def js_def)
  moreover have "blockedReason ?r = Some (js ''MAX_TOKENS'')"
    by (simp add: blockedReason_def)
  moreover have "truthy (API_KEY ?env)" by simp
  ultimately have "generateMarketAnalysis ?env (js ''Cozy Farming Sim'') =
      (Inl (newApiServiceError RESPONSE_BLOCKED
              (js ''Response was blocked due to: '' @ js ''MAX_TOKENS'')),
       [GenerateContent (marketAnalysisRequest (js ''Cozy Farming Sim''))])"
    by (simp add: generateMarketAnalysis_blocked)
  then show ?thesis
    by (simp add: newApiServiceError_def js_append [symmetric])
qed

text \<open>
  C8, as the code has it. The claim as stated fails when the response also reports a
  finish reason other than "STOP" (RESPONSE_BLOCKED comes first). When no such reason is
  reported, a non-empty response text whose trimmed form \<open>JSON.parse\<close> rejects makes
  generateMarketAnalysis and generateGameLevels fail with BAD_RESPONSE: the SyntaxError
  is caught and replaced.
\<close>

theorem malformed_json_is_bad_response:
  assumes "truthy (API_KEY env)"
      and "blockedReason response = None"
      and "response_text response = Some t"
      and "t \<noteq> []"
      and "JSON_parse env (trim t) = None"
  shows "(generateContent env (marketAnalysisRequest g) = Inr response \<longrightarrow>
            fst (generateMarketAnalysis env g) =
              Inl \<lparr>errType = BAD_RESPONSE,
                   message = js ''Received malformed data for market analysis.''\<rparr>)
       \<and> (\<forall>p. gameLevelsPrompt env g analysis = Inr p
              \<and> generateContent env (gameLevelsRequest p) = Inr response \<longrightarrow>
            fst (generateGameLevels env g analysis) =
              Inl \<lparr>errType = BAD_RESPONSE,
                   message = js ''Received malformed data for game ideas.''\<rparr>)"
  using generateMarketAnalysis_parse [OF assms(1) _ assms(2,3,4)]
    generateGameLevels_parse [OF assms(1) _ _ assms(2,3,4)] assms(5)
  by (auto simp: newApiServiceError_def)

theorem malformed_json_is_bad_response_witness:
  "fst (generateMarketAnalysis
          (browser (Some (js ''key''))
             (answers (reply (Some ''STOP'') (Some ''I cannot help with that.''))
                      (reply None (Some ''{\"trends\": [\"cozy''))))
          (js ''Cozy Farming Sim'')) =
     Inl \<lparr>errType = BAD_RESPONSE,
          message = js ''Received malformed data for market analysis.''\<rparr>
   \<and> fst (generateGameLevels
          (browser (Some (js ''key''))
             (answers (reply (Some ''STOP'') (Some ''I cannot help with that.''))
                      (reply None (Some ''{\"trends\": [\"cozy''))))
          (js ''Cozy Farming Sim'') sampleAnalysis) =
     Inl \<lparr>errType = BAD_RESPONSE, message = js ''Received malformed data for game ideas.''\<rparr>"
proof -
  let ?env = "browser (Some (js ''key''))
     (answers (reply (Some ''STOP'') (Some ''I cannot help with that.''))
              (reply None (Some ''{\"trends\": [\"cozy'')))"
  let ?g = "js ''Cozy Farming Sim''"
  let ?r1 = "\<lparr>candidates = Some [\<lparr>finishReason = Some (js ''STOP'')\<rparr>],
             response_text = Some (js ''I cannot help with that.'')\<rparr>"
  let ?r2 = "\<lparr>candidates = Some [\<lparr>finishReason = None\<rparr>],
             response_text = Some (js ''{\"trends\": [\"cozy'')\<rparr>"
  have k: "truthy (API_KEY ?env)" by simp
  have b: "blockedReason ?r1 = None" "blockedReason ?r2 = None"
    by (simp_all add: blockedReason_def)
  have t: "response_text ?r1 = Some (js ''I cannot help with that.'')"
    "response_text ?r2 = Some (js ''{\"trends\": [\"cozy'')" by simp_all
  have n: "js ''I cannot help with that.'' \<noteq> []" "js ''{\"trends\": [\"cozy'' \<noteq> []"
    by simp_all
  have p: "JSON_parse ?env (trim (js ''I cannot help with that.'')) = None"
    "JSON_parse ?env (trim (js ''{\"trends\": [\"cozy'')) = None"
    by (simp_all add: parse_apology parse_truncated)
  have c1: "generateContent ?env (marketAnalysisRequest ?g) = Inr ?r1"
    by (simp add: reply_def)
  have c2: "generateContent ?env (gameLevelsRequest q) = Inr ?r2" for q
    by (simp add: reply_def)
  show ?thesis
    using malformed_json_is_bad_response [OF k b(1) t(1) n(1) p(1), of ?g sampleAnalysis]
      malformed_json_is_bad_response [OF k b(2) t(2) n(2) p(2), of ?g sampleAnalysis]
      c1 c2 gameLevelsPrompt_sample [of ?env ?g]
    by auto
qed

text \<open>
  C8 as stated fails: generateMarketAnalysis, with a response cut off by the token limit
  (finish reason "MAX_TOKENS", a text that is not JSON), fails with RESPONSE_BLOCKED and
  not with BAD_RESPONSE.
\<close>

theorem malformed_json_counterexample:
  "parseJson (trim (js ''{\"trends\": [\"cozy'')) = None
   \<and> fst (generateMarketAnalysis
          (browser (Some (js ''key''))
             (answers (reply (Some ''MAX_TOKENS'') (Some ''{\"trends\": [\"cozy'')) (reply None None)))
          (js ''Cozy Farming Sim'')) =
     Inl \<lparr>errType = RESPONSE_BLOCKED,
          message = js ''Response was blocked due to: MAX_TOKENS''\<rparr>
   \<and> fst (generateMarketAnalysis
          (browser (Some (js ''key''))
             (answers (reply (Some ''MAX_TOKENS'') (Some ''{\"trends\": [\"cozy'')) (reply None None)))
          (js ''Cozy Farming Sim'')) \<noteq>
     Inl \<lparr>errType = BAD_RESPONSE,
          message = js ''Received malformed data for market analysis.''\<rparr>"
proof -
  let ?env = "browser (Some (js ''key''))
     (answers (reply (Some ''MAX_TOKENS'') (Some ''{\"trends\": [\"cozy'')) (reply None None))"
  let ?r = "\<lparr>candidates = Some [\<lparr>finishReason = Some (js ''MAX_TOKENS'')\<rparr>],
            response_text = Some (js ''{\"trends\": [\"cozy'')\<rparr>"
  have "generateContent ?env (marketAnalysisRequest (js ''Cozy Farming Sim'')) = Inr ?r"
    by (simp add: reply_def)
  moreover have "blockedReason ?r = Some (js ''MAX_TOKENS'')"
    by (simp add: blockedReason_def)
  moreover have "truthy (API_KEY ?env)" by simp
  ultimately have "generateMarketAnalysis ?env (js ''Cozy Farming Sim'') =
      (Inl (newApiServiceError RESPONSE_BLOCKED
              (js ''Response was blocked due to: '' @ js ''MAX_TOKENS'')),
       [GenerateContent (marketAnalysisRequest (js ''Cozy Farming Sim''))])"
    by (simp add: generateMarketAnalysis_blocked)
  then show ?thesis
    using parse_truncated by (simp add: newApiServiceError_def js_append [symmetric])
qed

text \<open>
  C9. When the genre is blank (empty, or white space only), handleAnalyzeGenre leaves the
  application in ANALYSIS_INPUT with the validation message as its error; the only state
  it sets during the run is ANALYSIS_INPUT, and the run makes no model call.
\<close>

theorem blank_genre_stays_in_input:
  assumes "\<forall>c\<in>set (genre st). isWhiteSpace c"
  shows "appState (fst (handleAnalyzeGenre env st)) = ANALYSIS_INPUT
       \<and> error (fst (handleAnalyzeGenre env st)) = Some (js ''Please enter a game genre.'')
       \<and> appStatesOf (snd (handleAnalyzeGenre env st)) = [ANALYSIS_INPUT]
       \<and> requestsOf (snd (handleAnalyzeGenre env st)) = []"
proof -
  have "trim (genre st) = []" using assms by (simp add: trim_eq_Nil_iff)
  then show ?thesis by (simp add: handleAnalyzeGenre_def)
qed

theorem blank_genre_stays_in_input_witness:
  "appState (fst (handleAnalyzeGenre
       (browser (Some (js ''key'')) (answers (reply None None) (reply None None)))
       (initialApp\<lparr>genre := js ''  \<newline> ''\<rparr>))) = ANALYSIS_INPUT
   \<and> error (fst (handleAnalyzeGenre
       (browser (Some (js ''key'')) (answers (reply None None) (reply None None)))
       (initialApp\<lparr>genre := js ''  \<newline> ''\<rparr>))) = Some (js ''Please enter a game genre.'')
   \<and> appStatesOf (snd (handleAnalyzeGenre
       (browser (Some (js ''key'')) (answers (reply None None) (reply None None)))
       (initialApp\<lparr>genre := js ''  \<newline> ''\<rparr>))) = [ANALYSIS_INPUT]
   \<and> requestsOf (snd (handleAnalyzeGenre
       (browser (Some (js ''key'')) (answers (reply None None) (reply None None)))
       (initialApp\<lparr>genre := js ''  \<newline> ''\<rparr>))) = []"
proof -
  have "\<forall>c\<in>set (genre (initialApp\<lparr>genre := js ''  \<newline> ''\<rparr>)). isWhiteSpace c"
    by (simp add: js_def cu_def isWhiteSpace_def)
  from blank_genre_stays_in_input [OF this] show ?thesis by blast
qed

text \<open>
  C10. In generateMarketAnalysis and in generateGameLevels, when the response both
  reports a finish reason other than "STOP" and has an empty or missing text, the blocked
  check comes first: the call fails with RESPONSE_BLOCKED, not with BAD_RESPONSE.
\<close>

theorem blocked_before_empty:
  assumes "truthy (API_KEY env)"
      and "firstFinishReason response = Some reason"
      and "reason \<noteq> []"
      and "reason \<noteq> js ''STOP''"
      and "\<not> truthy (response_text response)"
  shows "(generateContent env (marketAnalysisRequest g) = Inr response \<longrightarrow>
            (\<exists>e. fst (generateMarketAnalysis env g) = Inl e
                 \<and> errType e = RESPONSE_BLOCKED \<and> errType e \<noteq> BAD_RESPONSE))
       \<and> (\<forall>p. gameLevelsPrompt env g analysis = Inr p
              \<and> generateContent env (gameLevelsRequest p) = Inr response \<longrightarrow>
            (\<exists>e. fst (generateGameLevels env g analysis) = Inl e
                 \<and> errType e = RESPONSE_BLOCKED \<and> errType e \<noteq> BAD_RESPONSE))"
proof -
  have b: "blockedReason response = Some reason"
    using assms(2-4) by (rule blockedReason_Some)
  show ?thesis
    using generateMarketAnalysis_blocked [OF assms(1) _ b]
      generateGameLevels_blocked [OF assms(1) _ _ b]
    by (auto simp: newApiServiceError_def)
qed

theorem blocked_before_empty_witness:
  "errType (projl (fst (generateMarketAnalysis
          (browser (Some (js ''key'')) (answers (reply (Some ''SAFETY'') None) (reply (Some ''RECITATION'') (Some ''''))))
          (js ''Cozy Farming Sim'')))) = RESPONSE_BLOCKED
   \<and> errType (projl (fst (generateGameLevels
          (browser (Some (js ''key'')) (answers (reply (Some ''SAFETY'') None) (reply (Some ''RECITATION'') (Some ''''))))
          (js ''Cozy Farming Sim'') sampleAnalysis))) = RESPONSE_BLOCKED"
proof -
  let ?env = "browser (Some (js ''key''))
     (answers (reply (Some ''SAFETY'') None) (reply (Some ''RECITATION'') (Some '''')))"
  let ?g = "js ''Cozy Farming Sim''"
  let ?r1 = "\<lparr>candidates = Some [\<lparr>finishReason = Some (js ''SAFETY'')\<rparr>],
             response_text = None\<rparr>"
  let ?r2 = "\<lparr>candidates = Some [\<lparr>finishReason = Some (js ''RECITATION'')\<rparr>],
             response_text = Some []\<rparr>"
  have k: "truthy (API_KEY ?env)" by (simp add: browser_def)
  have c1: "generateContent ?env (marketAnalysisRequest ?g) = Inr ?r1"
    by (simp add: browser_def answers_def marketAnalysisRequest_def reply_def)
  have c2: "generateContent ?env (gameLevelsRequest p) = Inr ?r2" for p
    by (simp add: browser_def answers_def gameLevelsRequest_def reply_def js_def)
  have f1: "firstFinishReason ?r1 = Some (js ''SAFETY'')"
    and f2: "firstFinishReason ?r2 = Some (js ''RECITATION'')"
    by (simp_all add: firstFinishReason_def)
  have n: "js ''SAFETY'' \<noteq> []" "js ''SAFETY'' \<noteq> js ''STOP''"
    "js ''RECITATION'' \<noteq> []" "js ''RECITATION'' \<noteq> js ''STOP''"
    by simp_all
  have t: "\<not> truthy (response_text ?r1)" "\<not> truthy (response_text ?r2)" by simp_all
  show ?thesis
    using blocked_before_empty [OF k f1 n(1,2) t(1), of ?g sampleAnalysis]
      blocked_before_empty [OF k f2 n(3,4) t(2), of ?g sampleAnalysis]
      c1 c2 gameLevelsPrompt_sample [of ?env ?g]
    by auto
qed

section \<open>The pipeline on the sample responses\<close>

lemma parse_sampleLevels:
  "parseJson (trim (js sampleLevelsText)) = Some (JArray [sampleLevel, sampleLevel])"
  by code_simp

lemma sample_levels_conform: "isTwoGameLevels (JArray [sampleLevel, sampleLevel])"
  by code_simp

lemma handleGeneratePrototype_succeeds:
  assumes "fst (generatePrototype env idea) = Inr result"
  shows "fst (handleGeneratePrototype env idea st) =
           st\<lparr>error := None, prototypeResult := Some result,
              appState := PROTOTYPE_COMPLETE\<rparr>"
  using assms
  by (cases "generatePrototype env idea")
     (simp add: handleGeneratePrototype_def Let_def split: prod.splits)

text \<open>The genre "Cozy Farming Sim", an analysis and two levels in answer: the
  application ends in IDEA_COMPLETE holding both.\<close>

lemma pipeline_reaches_idea_complete:
  "fst (handleAnalyzeGenre
          (browser (Some (js ''key''))
             (answers (reply (Some ''STOP'') (Some sampleAnalysisText))
                      (reply (Some ''STOP'') (Some sampleLevelsText))))
          initialApp) =
     initialApp\<lparr>marketAnalysis := Some sampleAnalysis,
                gameIdeas := Some (JArray [sampleLevel, sampleLevel]),
                appState := IDEA_COMPLETE\<rparr>"
proof -
  let ?env = "browser (Some (js ''key''))
     (answers (reply (Some ''STOP'') (Some sampleAnalysisText))
              (reply (Some ''STOP'') (Some sampleLevelsText)))"
  let ?r = "\<lparr>candidates = Some [\<lparr>finishReason = Some (js ''STOP'')\<rparr>],
            response_text = Some (js sampleLevelsText)\<rparr>"
  have ne: "trim (genre initialApp) \<noteq> []" by (simp add: trim_genre)
  have n: "js sampleLevelsText \<noteq> []" by (simp add: sampleLevelsText_def)
  have "generateContent ?env (gameLevelsRequest p) = Inr ?r" for p by (simp add: reply_def)
  from generateGameLevels_parse [OF _ gameLevelsPrompt_sample this _ _ n]
  have "fst (generateGameLevels ?env (genre initialApp) sampleAnalysis) =
      Inr (JArray [sampleLevel, sampleLevel])"
    by (simp add: parse_sampleLevels)
  from handleAnalyzeGenre_succeeds [OF ne _ this] show ?thesis
    by (simp add: sample_analysis_returned initialApp_def)
qed

text \<open>A prototype answer "PROTOTYPE_UNFEASIBLE: goal unreachable": the application ends
  in PROTOTYPE_COMPLETE with the text variant, not on the error path.\<close>

lemma unfeasible_prototype_completes:
  "fst (handleGeneratePrototype
          (browser (Some (js ''key''))
             (answers (reply None None)
                (reply (Some ''STOP'') (Some ''PROTOTYPE_UNFEASIBLE: goal unreachable''))))
          sampleLevel
          (initialApp\<lparr>appState := IDEA_COMPLETE\<rparr>)) =
     initialApp\<lparr>prototypeResult :=
                  Some \<lparr>resultType = type_text, content = js ''goal unreachable''\<rparr>,
                appState := PROTOTYPE_COMPLETE\<rparr>"
proof -
  let ?t = "''PROTOTYPE_UNFEASIBLE: goal unreachable''"
  let ?env = "browser (Some (js ''key''))
     (answers (reply None None) (reply (Some ''STOP'') (Some ?t)))"
  let ?r = "\<lparr>candidates = Some [\<lparr>finishReason = Some (js ''STOP'')\<rparr>],
            response_text = Some (js ?t)\<rparr>"
  have tr: "trim (js ?t) = js ''PROTOTYPE_UNFEASIBLE:'' @ js '' goal unreachable''"
    by code_simp
  have s: "startsWith (js ''PROTOTYPE_UNFEASIBLE:'' @ js '' goal unreachable'')
             (js ''PROTOTYPE_UNFEASIBLE:'')"
    unfolding startsWith_iff by blast
  have "generateContent ?env (prototypeRequest p) = Inr ?r" for p by (simp add: reply_def)
  from generatePrototype_text [OF _ prototypePrompt_sample this, of "js ?t"]
  have "fst (generatePrototype ?env sampleLevel) =
      Inr \<lparr>resultType = type_text, content = js ''goal unreachable''\<rparr>"
    using s replace_prefix [OF s] by (simp add: tr trim_reason)
  from handleGeneratePrototype_succeeds [OF this] show ?thesis
    by (simp add: initialApp_def)
qed

end
